theory Spec2Isabelle
  imports Complex_Main
begin

section \<open>Errors and tensors\<close>

text \<open>
  The Python exceptions the modelled code can raise. A function that may raise returns
  \<open>error + 'a\<close>, with \<open>Inl\<close> for the exception.
\<close>

datatype error =
    ZeroDivisionError
  | IndexError
  | ValueError
  | NarrowError
  | ShapeMismatch
  | BatchSizeMismatch
  | LengthNotPositive
  | NotSorted

definition bindE :: "error + 'a \<Rightarrow> ('a \<Rightarrow> error + 'b) \<Rightarrow> error + 'b" where
  "bindE m f = (case m of Inl e \<Rightarrow> Inl e | Inr x \<Rightarrow> f x)"

text \<open>
  A dense tensor: its shape (\<open>x.size()\<close>) and its entries as nested lists. The shape
  is kept beside the entries because a tensor with an empty leading axis still knows its
  other extents.
\<close>

record 'c tensor =
  dims :: "nat list"
  cells :: 'c

type_synonym 'a tensor2 = "'a list list tensor"
type_synonym 'a tensor3 = "'a list list list tensor"
type_synonym 'a tensor4 = "'a list list list list tensor"

definition wf2 :: "'a tensor2 \<Rightarrow> bool" where
  "wf2 x \<longleftrightarrow> (case dims x of
      [n, t] \<Rightarrow> length (cells x) = n \<and> list_all (\<lambda>r. length r = t) (cells x)
    | _ \<Rightarrow> False)"

definition wf3 :: "'a tensor3 \<Rightarrow> bool" where
  "wf3 x \<longleftrightarrow> (case dims x of
      [n, t, h] \<Rightarrow> length (cells x) = n \<and>
        list_all (\<lambda>r. length r = t \<and> list_all (\<lambda>v. length v = h) r) (cells x)
    | _ \<Rightarrow> False)"

definition wf4 :: "'a tensor4 \<Rightarrow> bool" where
  "wf4 x \<longleftrightarrow> (case dims x of
      [n, c, d, t] \<Rightarrow> length (cells x) = n \<and>
        list_all (\<lambda>p. length p = c \<and>
          list_all (\<lambda>q. length q = d \<and> list_all (\<lambda>r. length r = t) q) p) (cells x)
    | _ \<Rightarrow> False)"

section \<open>Length arithmetic of the convolution stack\<close>

text \<open>
  The layers of the sequential container. Only \<open>Conv2d\<close> carries the fields that
  \<open>decrease_dim\<close> reads; each of them is a pair (feature axis, time axis).
\<close>

record conv2d =
  out_channels :: int
  kernel_size :: "int \<times> int"
  stride :: "int \<times> int"
  padding :: "int \<times> int"
  dilation :: "int \<times> int"

datatype layer = Conv2d conv2d | BatchNorm2d | ReLU | Dropout

text \<open>Indexing a pair with \<open>[dim]\<close>; an index past the pair raises.\<close>

fun tuple_get :: "int \<times> int \<Rightarrow> nat \<Rightarrow> error + int" where
  "tuple_get (a, b) 0 = Inr a"
| "tuple_get (a, b) (Suc 0) = Inr b"
| "tuple_get (a, b) (Suc (Suc k)) = Inl IndexError"

text \<open>
  \<open>decrease_dim(x, layer, dim)\<close> on a Python integer. \<open>//\<close> is floor division, as
  \<open>div\<close> on \<open>int\<close> is; a zero stride raises.
\<close>

definition decrease_dim :: "int \<Rightarrow> layer \<Rightarrow> nat \<Rightarrow> error + int" where
  "decrease_dim x layer axis = (case layer of
      Conv2d cv \<Rightarrow>
        bindE (tuple_get (padding cv) axis) (\<lambda>p.
        bindE (tuple_get (dilation cv) axis) (\<lambda>d.
        bindE (tuple_get (kernel_size cv) axis) (\<lambda>f.
        bindE (tuple_get (stride cv) axis) (\<lambda>s.
          if s = 0 then Inl ZeroDivisionError
          else Inr ((x + 2 * p - d * (f - 1) - 1) div s + 1)))))
    | _ \<Rightarrow> Inr x)"

text \<open>
  The same function on the integer tensor of lengths (\<open>MaskConv.forward\<close> calls it so):
  the arithmetic is elementwise, and the division raises only where there is an element to
  divide.
\<close>

definition decrease_dim_lengths :: "int list \<Rightarrow> layer \<Rightarrow> nat \<Rightarrow> error + int list" where
  "decrease_dim_lengths xs layer axis = (case layer of
      Conv2d cv \<Rightarrow>
        bindE (tuple_get (padding cv) axis) (\<lambda>p.
        bindE (tuple_get (dilation cv) axis) (\<lambda>d.
        bindE (tuple_get (kernel_size cv) axis) (\<lambda>f.
        bindE (tuple_get (stride cv) axis) (\<lambda>s.
          if s = 0 \<and> xs \<noteq> [] then Inl ZeroDivisionError
          else Inr (map (\<lambda>x. (x + 2 * p - d * (f - 1) - 1) div s + 1) xs)))))
    | _ \<Rightarrow> Inr xs)"

definition is_time_decrease :: "layer \<Rightarrow> error + bool" where
  "is_time_decrease layer = bindE (decrease_dim 100 layer 1) (\<lambda>y. Inr (y \<noteq> 100))"

text \<open>\<open>MaskConv.output_time\<close>: the loop over \<open>self.layers\<close>, threading \<open>x\<close>.\<close>

fun output_time :: "layer list \<Rightarrow> int \<Rightarrow> error + int" where
  "output_time [] x = Inr x"
| "output_time (layer # layers) x =
     bindE (decrease_dim x layer 1) (\<lambda>x'. output_time layers x')"

text \<open>
  The specification's single-transform formula, written with the floor of a real
  quotient, to compare with \<open>decrease_dim\<close>.
\<close>

definition output_length_spec :: "layer \<Rightarrow> int \<Rightarrow> int" where
  "output_length_spec layer L = (case layer of
      Conv2d cv \<Rightarrow>
        \<lfloor>real_of_int (L + 2 * snd (padding cv)
              - snd (dilation cv) * (snd (kernel_size cv) - 1) - 1)
            / real_of_int (snd (stride cv))\<rfloor> + 1
    | _ \<Rightarrow> L)"

definition time_stride_nonzero :: "layer \<Rightarrow> bool" where
  "time_stride_nonzero layer = (case layer of Conv2d cv \<Rightarrow> snd (stride cv) \<noteq> 0 | _ \<Rightarrow> True)"

text \<open>The convolution stack that \<open>AcousticModel.__init__\<close> builds.\<close>

definition conv1 :: conv2d where
  "conv1 = \<lparr>out_channels = 32, kernel_size = (21, 11), stride = (2, 2),
            padding = (10, 5), dilation = (1, 1)\<rparr>"

definition conv2 :: conv2d where
  "conv2 = \<lparr>out_channels = 32, kernel_size = (11, 11), stride = (2, 1),
            padding = (5, 5), dilation = (1, 1)\<rparr>"

definition am_layers :: "layer list" where
  "am_layers = [Conv2d conv1, BatchNorm2d, ReLU, Dropout,
                Conv2d conv2, BatchNorm2d, ReLU, Dropout]"

section \<open>Temporal masking in the convolution stack\<close>

text \<open>\<open>torch.zeros((n, 1, 1, t), dtype=torch.bool)\<close>.\<close>

definition zeros_mask :: "nat \<Rightarrow> nat \<Rightarrow> bool tensor4" where
  "zeros_mask n t = \<lparr>dims = [n, 1, 1, t], cells = replicate n [[replicate t False]]\<rparr>"

text \<open>
  \<open>mask[i].narrow(2, start, length).fill_(1)\<close> on one sample's slice of the mask, whose
  last axis has extent \<open>t\<close>. \<open>narrow\<close> rejects a negative length and a start outside
  \<open>[-t, t]\<close>, counts a negative start from the end, and rejects a window that passes the
  end of the axis.
\<close>

definition narrow_fill ::
  "nat \<Rightarrow> bool list list list \<Rightarrow> int \<Rightarrow> int \<Rightarrow> error + bool list list list" where
  "narrow_fill t m start len =
     (if len < 0 then Inl NarrowError
      else if start < - int t \<or> int t < start then Inl IndexError
      else let s0 = (if start < 0 then start + int t else start) in
        if int t - len < s0 then Inl NarrowError
        else Inr (map (map (\<lambda>row.
               map (\<lambda>k. (s0 \<le> int k \<and> int k < s0 + len) \<or> row ! k) [0..<length row])) m))"

text \<open>
  The loop \<open>for i, length in enumerate(lengths)\<close> of \<open>MaskConv.forward\<close>; \<open>len\<close> is
  the loop's rebinding of \<open>length\<close> to \<open>t - start\<close>. \<open>mask[i]\<close> is only read under the
  guard, where an index past the batch raises.
\<close>

fun fill_mask :: "nat \<Rightarrow> (nat \<times> int) list \<Rightarrow> bool tensor4 \<Rightarrow> error + bool tensor4" where
  "fill_mask t [] msk = Inr msk"
| "fill_mask t ((i, start) # rest) msk =
     (let len = int t - start in
      if len > 0 then
        (if i < length (cells msk) then
           bindE (narrow_fill t (cells msk ! i) start len)
             (\<lambda>m. fill_mask t rest (msk\<lparr>cells := (cells msk)[i := m]\<rparr>))
         else Inl IndexError)
      else fill_mask t rest msk)"

text \<open>Lines 63 to 71: the fresh mask for the tensor \<open>x\<close> and the current lengths.\<close>

definition temporal_mask :: "'a tensor4 \<Rightarrow> int list \<Rightarrow> error + bool tensor4" where
  "temporal_mask x lengths = (case dims x of
      [n, c, d, t] \<Rightarrow> fill_mask t (enumerate 0 lengths) (zeros_mask n t)
    | _ \<Rightarrow> Inl ValueError)"

text \<open>Reading along an axis that broadcasting may have stretched from extent 1.\<close>

definition bget :: "'b list \<Rightarrow> nat \<Rightarrow> 'b" where
  "bget xs i = (if length xs = 1 then xs ! 0 else xs ! i)"

definition broadcastable :: "nat list \<Rightarrow> nat list \<Rightarrow> bool" where
  "broadcastable ms xs \<longleftrightarrow> list_all2 (\<lambda>m x. m = x \<or> m = 1) ms xs"

text \<open>\<open>x.masked_fill(mask, value)\<close>: the mask is broadcast to the shape of \<open>x\<close>.\<close>

definition masked_fill :: "'a tensor4 \<Rightarrow> bool tensor4 \<Rightarrow> 'a \<Rightarrow> error + 'a tensor4" where
  "masked_fill x msk v =
     (if broadcastable (dims msk) (dims x) then
        Inr (x\<lparr>cells :=
          map (\<lambda>(i, xi).
            map (\<lambda>(c, xc).
              map (\<lambda>(d, xd).
                map (\<lambda>(k, e).
                  if bget (bget (bget (bget (cells msk) i) c) d) k then v else e)
                  (enumerate 0 xd))
                (enumerate 0 xc))
              (enumerate 0 xi))
            (enumerate 0 (cells x))\<rparr>)
      else Inl ShapeMismatch)"

text \<open>
  The layer loop of \<open>MaskConv.forward\<close>. \<open>run layer x\<close> stands for \<open>layer(x)\<close>, the
  layer primitive applied to the feature map; \<open>mask\<close> is \<open>None\<close> until the first
  time-decreasing layer.
\<close>

fun MaskConv_layers ::
  "(layer \<Rightarrow> 'a::zero tensor4 \<Rightarrow> 'a tensor4) \<Rightarrow> layer list \<Rightarrow> 'a tensor4 \<Rightarrow> int list \<Rightarrow>
   bool tensor4 option \<Rightarrow> error + ('a tensor4 \<times> int list)" where
  "MaskConv_layers run [] x lengths msk = Inr (x, lengths)"
| "MaskConv_layers run (layer # rest) x lengths msk =
     (let x1 = run layer x in
      bindE (is_time_decrease layer) (\<lambda>dec.
      bindE (if dec then
               bindE (decrease_dim_lengths lengths layer 1) (\<lambda>lengths1.
               bindE (temporal_mask x1 lengths1) (\<lambda>mask1. Inr (lengths1, Some mask1)))
             else Inr (lengths, msk)) (\<lambda>(lengths2, mask2).
      bindE (case mask2 of None \<Rightarrow> Inr x1 | Some m \<Rightarrow> masked_fill x1 m 0) (\<lambda>x2.
      MaskConv_layers run rest x2 lengths2 mask2))))"

text \<open>
  \<open>x.view(n, c * d, t).transpose(1, 2).transpose(0, 1)\<close>: entry \<open>(k, i)\<close> of the result
  is the vector of all channel and feature values of sample \<open>i\<close> at time \<open>k\<close>.
\<close>

definition time_major :: "'a tensor4 \<Rightarrow> error + 'a tensor3" where
  "time_major x = (case dims x of
      [n, c, d, t] \<Rightarrow>
        Inr \<lparr>dims = [t, n, c * d],
             cells = map (\<lambda>k. map (\<lambda>xi. concat (map (map (\<lambda>row. row ! k)) xi)) (cells x))
                       [0..<t]\<rparr>
    | _ \<Rightarrow> Inl ValueError)"

definition MaskConv_forward ::
  "(layer \<Rightarrow> 'a::zero tensor4 \<Rightarrow> 'a tensor4) \<Rightarrow> layer list \<Rightarrow> 'a tensor4 \<Rightarrow> int list \<Rightarrow>
   error + ('a tensor3 \<times> int list)" where
  "MaskConv_forward run layers x lengths =
     bindE (MaskConv_layers run layers x lengths None) (\<lambda>(x1, lengths1).
     bindE (time_major x1) (\<lambda>x2. Inr (x2, lengths1)))"

text \<open>
  What the loop is meant to leave in one sample's slice of the mask: the positions from
  \<open>start\<close> to the end of the axis are set, if there are any.
\<close>

definition mark_from :: "nat \<Rightarrow> int \<Rightarrow> bool list list list \<Rightarrow> bool list list list" where
  "mark_from t start m =
     (if start < int t then
        map (map (\<lambda>row. map (\<lambda>k. (start \<le> int k \<and> int k < int t) \<or> row ! k) [0..<length row])) m
      else m)"

section \<open>Packing and the two encoders\<close>

text \<open>
  The input validation of the library routine \<open>pack_padded_sequence(x, lengths,
  enforce_sorted)\<close> on a time-major input \<open>x\<close> of shape (time, batch, features): the
  lengths are sorted in decreasing order first unless \<open>enforce_sorted\<close> is set; an empty
  input, a length count other than the batch size, a smallest length that is not positive,
  and (with \<open>enforce_sorted\<close>) lengths that are not in decreasing order are rejected, in
  this order. The packed data itself is left to \<open>packer\<close>.
\<close>

definition sorted_decreasing :: "int list \<Rightarrow> bool" where
  "sorted_decreasing ls \<longleftrightarrow> sorted (rev ls)"

definition pack_padded_sequence ::
  "('a list list list \<Rightarrow> int list \<Rightarrow> bool \<Rightarrow> 'p) \<Rightarrow> 'a tensor3 \<Rightarrow> int list \<Rightarrow> bool \<Rightarrow> error + 'p" where
  "pack_padded_sequence packer x lengths enforce_sorted =
     (let ls = (if enforce_sorted then lengths else rev (sort lengths)) in
      case dims x of
        [t, n, h] \<Rightarrow>
          if t * n * h = 0 then Inl ValueError
          else if length ls \<noteq> n then Inl BatchSizeMismatch
          else if last ls \<le> 0 then Inl LengthNotPositive
          else if \<not> sorted_decreasing ls then Inl NotSorted
          else Inr (packer (cells x) lengths enforce_sorted)
      | _ \<Rightarrow> Inl ValueError)"

text \<open>
  \<open>AcousticModel\<close>: the convolution stack with its layer primitives, the packer, and
  \<open>am_recurrent\<close> for lines 112 to 120 (the bidirectional recurrent layer, the sum of the
  two directions, the projection, the optional head and the unpacking).
\<close>

record ('a, 'p) acoustic_model =
  conv_layers :: "layer list"
  conv_run :: "layer \<Rightarrow> 'a tensor4 \<Rightarrow> 'a tensor4"
  am_packer :: "'a list list list \<Rightarrow> int list \<Rightarrow> bool \<Rightarrow> 'p"
  am_recurrent :: "'p \<Rightarrow> bool \<Rightarrow> 'a tensor3"

definition AcousticModel_forward ::
  "('a::zero, 'p) acoustic_model \<Rightarrow> 'a tensor4 \<Rightarrow> int list \<Rightarrow> bool \<Rightarrow>
   error + ('a tensor3 \<times> int list)" where
  "AcousticModel_forward am x lengths head =
     bindE (MaskConv_forward (conv_run am) (conv_layers am) x lengths) (\<lambda>(x1, lengths1).
     bindE (pack_padded_sequence (am_packer am) x1 lengths1 True) (\<lambda>packed.
     Inr (am_recurrent am packed head, lengths1)))"

text \<open>
  \<open>LanguageModel\<close>: the embedding, the recurrent layer (one call on a sequence and an
  optional incoming state, returning the outputs and the new state), the projection, the
  packer, and \<open>lm_recurrent\<close> for lines 146 to 152 of the sequence mode.
\<close>

type_synonym 'a state = "'a list list list \<times> 'a list list list"

record ('a, 'p) language_model =
  emb :: "int list list \<Rightarrow> 'a list list list"
  rnn :: "'a list list list \<Rightarrow> 'a state option \<Rightarrow> 'a list list list \<times> 'a state"
  prj :: "'a list list list \<Rightarrow> 'a list list list"
  num_layers :: nat
  hidden_size :: nat
  lm_packer :: "'a list list list \<Rightarrow> int list \<Rightarrow> bool \<Rightarrow> 'p"
  lm_recurrent :: "'p \<Rightarrow> bool \<Rightarrow> 'a tensor3"

text \<open>Lines 142 and 143: the row of zeros put before the symbol history.\<close>

definition prepend_init :: "int tensor2 \<Rightarrow> error + int list list" where
  "prepend_init x = (case dims x of
      [u, n] \<Rightarrow> Inr (replicate n 0 # cells x)
    | _ \<Rightarrow> Inl IndexError)"

text \<open>
  The shape of a nested list. Below an empty axis the extents cannot be read off and are
  given as 0; the tensor has no entries then, whatever they are.
\<close>

definition shape3 :: "'a list list list \<Rightarrow> nat list" where
  "shape3 x = (case x of
      [] \<Rightarrow> [0, 0, 0]
    | r # _ \<Rightarrow> (case r of [] \<Rightarrow> [length x, 0, 0] | v # _ \<Rightarrow> [length x, length r, length v]))"

definition LanguageModel_forward ::
  "('a, 'p) language_model \<Rightarrow> int tensor2 \<Rightarrow> int list \<Rightarrow> bool \<Rightarrow> error + 'a tensor3" where
  "LanguageModel_forward lm x lengths head =
     bindE (prepend_init x) (\<lambda>x1.
     let x2 = emb lm x1 in
     bindE (pack_padded_sequence (lm_packer lm) \<lparr>dims = shape3 x2, cells = x2\<rparr>
              (map (\<lambda>l. l + 1) lengths) False)
       (\<lambda>packed. Inr (lm_recurrent lm packed head)))"

definition step_features ::
  "('a, 'p) language_model \<Rightarrow> int list list \<Rightarrow> 'a state option \<Rightarrow> 'a list list list \<times> 'a state" where
  "step_features lm x h =
     (let x1 = emb lm x;
          (x2, h1) = rnn lm x1 h;
          x3 = prj lm x2
      in (x3, h1))"

definition step_init :: "('a::zero, 'p) language_model \<Rightarrow> nat \<Rightarrow> 'a state" where
  "step_init lm batch_size =
     (replicate (num_layers lm) (replicate batch_size (replicate (hidden_size lm) 0)),
      replicate (num_layers lm) (replicate batch_size (replicate (hidden_size lm) 0)))"

section \<open>The joint network\<close>

text \<open>
  \<open>Transducer\<close>: the blank id, the vocabulary size, the prediction network, and the
  joint head \<open>fc\<close> (a rectifier and an affine map, acting on the last axis). The library's
  \<open>log_softmax\<close> over the last axis and the elementwise \<open>exp\<close> are kept with them.
\<close>

record ('a, 'p) transducer =
  blank :: int
  vocab_size :: nat
  lm :: "('a, 'p) language_model"
  fc :: "'a list \<Rightarrow> 'a list"
  log_softmax :: "'a list \<Rightarrow> 'a list"
  texp :: "'a \<Rightarrow> 'a"

text \<open>\<open>x + y\<close> on two vectors; an axis of extent 1 is broadcast.\<close>

definition vadd :: "'a::plus list \<Rightarrow> 'a list \<Rightarrow> 'a list" where
  "vadd x y =
     (if length x = 1 \<and> length y \<noteq> 1 then map (\<lambda>v. x ! 0 + v) y
      else if length y = 1 \<and> length x \<noteq> 1 then map (\<lambda>v. v + y ! 0) x
      else map2 (+) x y)"

text \<open>
  \<open>Transducer.joint\<close> on one acoustic vector and one prediction vector, and the same
  function on the two ranks at which the class calls it: on one vector per sample (the
  decoding loop) and on one vector per (sample, time, label position).
\<close>

definition joint :: "('a::plus, 'p) transducer \<Rightarrow> 'a list \<Rightarrow> 'a list \<Rightarrow> 'a list" where
  "joint tr x y = (let z = fc tr (vadd x y) in log_softmax tr z)"

definition joint_rows ::
  "('a::plus, 'p) transducer \<Rightarrow> 'a list list \<Rightarrow> 'a list list \<Rightarrow> 'a list list" where
  "joint_rows tr x y = map2 (joint tr) x y"

definition joint_grid ::
  "('a::plus, 'p) transducer \<Rightarrow> 'a list list list list \<Rightarrow> 'a list list list list \<Rightarrow>
   'a list list list list" where
  "joint_grid tr x y = map2 (map2 (map2 (joint tr))) x y"

text \<open>
  \<open>Transducer.forward_joint\<close>. The second unpacking rebinds \<open>n\<close> to the batch size of
  \<open>ys\<close>; \<open>expand\<close> stretches the new axis, and the batch axis of \<open>xs\<close> when it has
  extent 1, and raises on any other mismatch, as the addition does on feature sizes that
  differ and are not 1.
\<close>

definition forward_joint ::
  "('a::plus, 'p) transducer \<Rightarrow> 'a tensor3 \<Rightarrow> 'a tensor3 \<Rightarrow> error + 'a list list list list" where
  "forward_joint tr xs ys = (case dims xs of
      [n0, t, x_h] \<Rightarrow> (case dims ys of
          [n, u, y_h] \<Rightarrow>
            if n0 \<noteq> n \<and> n0 \<noteq> 1 then Inl ShapeMismatch
            else if x_h \<noteq> y_h \<and> x_h \<noteq> 1 \<and> y_h \<noteq> 1 then Inl ShapeMismatch
            else
              let x = map (\<lambda>b. map (\<lambda>v. replicate u v) (bget (cells xs) b)) [0..<n];
                  y = map (\<lambda>w. replicate t w) (cells ys)
              in Inr (joint_grid tr x y)
        | _ \<Rightarrow> Inl ValueError)
    | _ \<Rightarrow> Inl ValueError)"

section \<open>Greedy decoding\<close>

text \<open>
  The random primitives of the sampled policy, each threading the generator state \<open>'g\<close>:
  \<open>torch.multinomial(p, num_samples=1)\<close> (one column per sample), \<open>torch.bernoulli\<close> and
  \<open>torch.randn_like\<close>.
\<close>

record ('a, 'g) sampler =
  multinomial :: "'g \<Rightarrow> 'a list list \<Rightarrow> int list list \<times> 'g"
  bernoulli :: "'g \<Rightarrow> 'a list \<Rightarrow> 'a list \<times> 'g"
  randn_like :: "'g \<Rightarrow> 'a list list \<Rightarrow> 'a list list \<times> 'g"

text \<open>The output \<open>s\<close>: symbols of shape (n, t), or distributions of shape (n, t, vocab).\<close>

datatype 'a decoded = Symbols "int tensor2" | Distributions "'a tensor3"

text \<open>
  The variables the loop carries from one timestep to the next: the output, the
  prediction-step representation \<open>yd\<close>, the recurrent state \<open>(hd, cd)\<close>, and the
  generator.
\<close>

record ('a, 'g) decode_state =
  s_out :: "'a decoded"
  s_yd :: "'a list list list"
  s_hd :: "'a list list list"
  s_cd :: "'a list list list"
  s_gen :: 'g

text \<open>\<open>torch.argmax(v, dim=-1)\<close> on one row: the first index of the largest entry.\<close>

fun argmax_from :: "nat \<Rightarrow> 'a::linorder \<Rightarrow> nat \<Rightarrow> 'a list \<Rightarrow> nat" where
  "argmax_from best bv i [] = best"
| "argmax_from best bv i (v # vs) =
     (if bv < v then argmax_from i v (Suc i) vs else argmax_from best bv (Suc i) vs)"

definition torch_argmax :: "'a::linorder list \<Rightarrow> int" where
  "torch_argmax v = (case v of [] \<Rightarrow> 0 | a # vs \<Rightarrow> int (argmax_from 0 a 1 vs))"

text \<open>\<open>xs[:, i]\<close>: the acoustic vector of every sample at time \<open>i\<close>.\<close>

definition select_time :: "'a tensor3 \<Rightarrow> nat \<Rightarrow> 'a list list" where
  "select_time xs i = map (\<lambda>sample. sample ! i) (cells xs)"

text \<open>\<open>z -= prior\<close>: in place, so \<open>z\<close> keeps its shape and the prior vector is broadcast.\<close>

definition sub_prior :: "'a::minus list list \<Rightarrow> 'a list \<Rightarrow> 'a list list" where
  "sub_prior z prior = map (\<lambda>row. map (\<lambda>(k, v). v - bget prior k) (enumerate 0 row)) z"

text \<open>
  \<open>torch.where(msk, a, b)\<close> with \<open>a\<close> and \<open>b\<close> of one shape (layers, batch, features) and
  the condition of shape (1, batch, 1), broadcast along the first and the last axis.
\<close>

definition where3 ::
  "bool list list list \<Rightarrow> 'a list list list \<Rightarrow> 'a list list list \<Rightarrow> 'a list list list" where
  "where3 msk a b =
     map (\<lambda>l. map (\<lambda>j. map (\<lambda>k.
            if bget (bget (bget msk l) j) k then a ! l ! j ! k else b ! l ! j ! k)
          [0..<length (a ! l ! j)]) [0..<length (a ! l)]) [0..<length a]"

text \<open>Lines 262 to 269: the symbol of every sample, by sampling or by \<open>argmax\<close>.\<close>

definition emit ::
  "('a::linordered_idom, 'p) transducer \<Rightarrow> ('a, 'g) sampler \<Rightarrow> bool \<Rightarrow> 'a \<Rightarrow> 'a list list \<Rightarrow> 'g \<Rightarrow>
   int list \<times> 'g" where
  "emit tr smp sampled epsilon z g =
     (if sampled then
        (let (c0, g1) = multinomial smp g (map (map (texp tr)) z);
             c = concat c0
         in if epsilon > 0 then
              (let (e, g2) = bernoulli smp g1 (map (\<lambda>v. 1 * epsilon) c);
                   (noise, g3) = randn_like smp g2 z;
                   r = map torch_argmax noise
               in (map (\<lambda>j. if e ! j \<noteq> 0 then r ! j else c ! j) [0..<length c], g3))
            else (c, g1))
      else (map torch_argmax z, g))"

text \<open>Lines 271 to 274: \<open>s[:, i] = c\<close> or \<open>s[:, i] = z\<close>, by the output mode.\<close>

definition record_step :: "bool \<Rightarrow> nat \<Rightarrow> int list \<Rightarrow> 'a list list \<Rightarrow> 'a decoded \<Rightarrow> 'a decoded" where
  "record_step argmax i c z s =
     (if argmax then
        (case s of
           Symbols m \<Rightarrow> Symbols (m\<lparr>cells := map (\<lambda>(row, v). row[i := v]) (zip (cells m) c)\<rparr>)
         | Distributions m \<Rightarrow> Distributions m)
      else
        (case s of
           Symbols m \<Rightarrow> Symbols m
         | Distributions m \<Rightarrow>
             Distributions (m\<lparr>cells := map (\<lambda>(row, v). row[i := v]) (zip (cells m) z)\<rparr>)))"

text \<open>Lines 257 to 260: the joint scores of timestep \<open>i\<close>, less the prior if one is given.\<close>

definition step_scores ::
  "('a::linordered_idom, 'p) transducer \<Rightarrow> 'a tensor3 \<Rightarrow> 'a list option \<Rightarrow> nat \<Rightarrow>
   ('a, 'g) decode_state \<Rightarrow> 'a list list" where
  "step_scores tr xs prior i st =
     (let z0 = joint_rows tr (select_time xs i) (s_yd st ! 0)
      in case prior of None \<Rightarrow> z0 | Some p \<Rightarrow> sub_prior z0 p)"

text \<open>One pass through the body of the loop \<open>for i in range(t)\<close>.\<close>

definition decode_step ::
  "('a::linordered_idom, 'p) transducer \<Rightarrow> ('a, 'g) sampler \<Rightarrow> 'a tensor3 \<Rightarrow> 'a list option \<Rightarrow>
   bool \<Rightarrow> 'a \<Rightarrow> bool \<Rightarrow> nat \<Rightarrow> ('a, 'g) decode_state \<Rightarrow> ('a, 'g) decode_state" where
  "decode_step tr smp xs prior sampled epsilon argmax i st =
     (let z = step_scores tr xs prior i st;
          (c, g1) = emit tr smp sampled epsilon z (s_gen st);
          s1 = record_step argmax i c z (s_out st);
          c1 = [c];
          msk = map (map (\<lambda>v. [v = blank tr])) c1;
          (yd_next, (hd_next, cd_next)) = step_features (lm tr) c1 (Some (s_hd st, s_cd st))
      in \<lparr>s_out = s1,
          s_yd = where3 msk (s_yd st) yd_next,
          s_hd = where3 msk (s_hd st) hd_next,
          s_cd = where3 msk (s_cd st) cd_next,
          s_gen = g1\<rparr>)"

text \<open>
  Lines 244 to 253: the zero-filled output of the requested mode, and the first
  prediction step on the start symbols \<open>c = zeros((1, n))\<close> with no incoming state.
\<close>

definition decode_init ::
  "('a::linordered_idom, 'p) transducer \<Rightarrow> 'g \<Rightarrow> 'a tensor3 \<Rightarrow> bool \<Rightarrow>
   error + ('a, 'g) decode_state" where
  "decode_init tr g xs argmax = (case dims xs of
      [n, t, h] \<Rightarrow>
        let s0 = (if argmax then Symbols \<lparr>dims = [n, t], cells = replicate n (replicate t 0)\<rparr>
                  else Distributions \<lparr>dims = [n, t, vocab_size tr],
                         cells = replicate n (replicate t (replicate (vocab_size tr) 0))\<rparr>);
            c = [replicate n 0];
            (yd0, (hd0, cd0)) = step_features (lm tr) c None
        in Inr \<lparr>s_out = s0, s_yd = yd0, s_hd = hd0, s_cd = cd0, s_gen = g\<rparr>
    | _ \<Rightarrow> Inl ValueError)"

text \<open>The loop, from timestep \<open>0\<close> up to the time extent of \<open>xs\<close>.\<close>

definition decode_loop ::
  "('a::linordered_idom, 'p) transducer \<Rightarrow> ('a, 'g) sampler \<Rightarrow> 'a tensor3 \<Rightarrow> 'a list option \<Rightarrow>
   bool \<Rightarrow> 'a \<Rightarrow> bool \<Rightarrow> nat \<Rightarrow> ('a, 'g) decode_state \<Rightarrow> ('a, 'g) decode_state" where
  "decode_loop tr smp xs prior sampled epsilon argmax t st =
     fold (decode_step tr smp xs prior sampled epsilon argmax) [0..<t] st"

definition greedy_decode ::
  "('a::linordered_idom, 'p) transducer \<Rightarrow> ('a, 'g) sampler \<Rightarrow> 'g \<Rightarrow> 'a tensor3 \<Rightarrow>
   'a list option \<Rightarrow> bool \<Rightarrow> 'a \<Rightarrow> bool \<Rightarrow> error + 'a decoded" where
  "greedy_decode tr smp g xs prior sampled epsilon argmax = (case dims xs of
      [n, t, h] \<Rightarrow>
        bindE (decode_init tr g xs argmax) (\<lambda>st.
          Inr (s_out (decode_loop tr smp xs prior sampled epsilon argmax t st)))
    | _ \<Rightarrow> Inl ValueError)"

text \<open>
  What one timestep emits and what it proposes: the symbols chosen at step \<open>i\<close> from the
  state \<open>st\<close>, and the candidate that one prediction step on symbols \<open>c\<close> returns.
\<close>

definition emitted ::
  "('a::linordered_idom, 'p) transducer \<Rightarrow> ('a, 'g) sampler \<Rightarrow> 'a tensor3 \<Rightarrow> 'a list option \<Rightarrow>
   bool \<Rightarrow> 'a \<Rightarrow> nat \<Rightarrow> ('a, 'g) decode_state \<Rightarrow> int list" where
  "emitted tr smp xs prior sampled epsilon i st =
     fst (emit tr smp sampled epsilon (step_scores tr xs prior i st) (s_gen st))"

definition candidate ::
  "('a, 'p) transducer \<Rightarrow> int list \<Rightarrow> ('a, 'g) decode_state \<Rightarrow> 'a list list list \<times> 'a state" where
  "candidate tr c st = step_features (lm tr) [c] (Some (s_hd st, s_cd st))"

text \<open>Two tensors of one shape; a tensor whose second axis is the batch of \<open>n\<close> samples.\<close>

definition same_shape3 :: "'a list list list \<Rightarrow> 'a list list list \<Rightarrow> bool" where
  "same_shape3 a b \<longleftrightarrow> list_all2 (list_all2 (\<lambda>u v. length u = length v)) a b"

definition batch_axis :: "nat \<Rightarrow> 'a list list list \<Rightarrow> bool" where
  "batch_axis n a \<longleftrightarrow> list_all (\<lambda>layer. length layer = n) a"

section \<open>Decoding under the training flag\<close>

text \<open>
  Every module carries the flag \<open>self.training\<close>, set at construction and cleared only by
  \<open>eval()\<close>; \<open>greedy_decode\<close> neither reads nor sets it. While the flag is set and the
  dropout rate is positive, two layers of the prediction network draw from the random
  generator: the \<open>nn.Dropout\<close> in front of the projection (line 133), and the recurrent
  layer between its own layers when it has more than one (line 131 passes the rate 0
  to a single-layer \<open>nn.LSTM\<close>). With the flag cleared, or at rate 0 (the default of the
  constructors), both are the functions \<open>rnn\<close> and \<open>prj\<close> of the prediction network and no
  number is drawn. The two draws are library primitives and are parameters here, each
  threading the generator state.
\<close>

record ('a, 'g) dropout =
  training :: bool
  p_drop :: real
  draw_rnn :: "'g \<Rightarrow> 'a list list list \<Rightarrow> 'a state option \<Rightarrow> ('a list list list \<times> 'a state) \<times> 'g"
  draw_prj :: "'g \<Rightarrow> 'a list list list \<Rightarrow> 'a list list list \<times> 'g"

definition dropout_active :: "('a, 'g) dropout \<Rightarrow> bool" where
  "dropout_active md \<longleftrightarrow> training md \<and> 0 < p_drop md"

text \<open>Lines 155 to 159, with the mode of the module and the generator as inputs.\<close>

definition step_features_mode ::
  "('a, 'p) language_model \<Rightarrow> ('a, 'g) dropout \<Rightarrow> 'g \<Rightarrow> int list list \<Rightarrow> 'a state option \<Rightarrow>
   ('a list list list \<times> 'a state) \<times> 'g" where
  "step_features_mode pnet md g x h =
     (let x1 = emb pnet x;
          ((x2, h1), g1) = (if dropout_active md \<and> 1 < num_layers pnet
                            then draw_rnn md g x1 h else (rnn pnet x1 h, g));
          (x2d, g2) = (if dropout_active md then draw_prj md g1 x2 else (x2, g1));
          x3 = prj pnet x2d
      in ((x3, h1), g2))"

text \<open>
  The body of the loop, the first prediction step, the loop and \<open>greedy_decode\<close> again,
  with the prediction step taken in the mode of the module. The selection of the symbol
  comes first in the body, so it draws before the prediction step does.
\<close>

definition decode_step_mode ::
  "('a::linordered_idom, 'p) transducer \<Rightarrow> ('a, 'g) dropout \<Rightarrow> ('a, 'g) sampler \<Rightarrow> 'a tensor3 \<Rightarrow>
   'a list option \<Rightarrow> bool \<Rightarrow> 'a \<Rightarrow> bool \<Rightarrow> nat \<Rightarrow> ('a, 'g) decode_state \<Rightarrow>
   ('a, 'g) decode_state" where
  "decode_step_mode tr md smp xs prior sampled epsilon argmax i st =
     (let z = step_scores tr xs prior i st;
          (c, g1) = emit tr smp sampled epsilon z (s_gen st);
          s1 = record_step argmax i c z (s_out st);
          c1 = [c];
          msk = map (map (\<lambda>v. [v = blank tr])) c1;
          ((yd_next, (hd_next, cd_next)), g2) =
            step_features_mode (lm tr) md g1 c1 (Some (s_hd st, s_cd st))
      in \<lparr>s_out = s1,
          s_yd = where3 msk (s_yd st) yd_next,
          s_hd = where3 msk (s_hd st) hd_next,
          s_cd = where3 msk (s_cd st) cd_next,
          s_gen = g2\<rparr>)"

definition decode_init_mode ::
  "('a::linordered_idom, 'p) transducer \<Rightarrow> ('a, 'g) dropout \<Rightarrow> 'g \<Rightarrow> 'a tensor3 \<Rightarrow> bool \<Rightarrow>
   error + ('a, 'g) decode_state" where
  "decode_init_mode tr md g xs argmax = (case dims xs of
      [n, t, h] \<Rightarrow>
        let s0 = (if argmax then Symbols \<lparr>dims = [n, t], cells = replicate n (replicate t 0)\<rparr>
                  else Distributions \<lparr>dims = [n, t, vocab_size tr],
                         cells = replicate n (replicate t (replicate (vocab_size tr) 0))\<rparr>);
            c = [replicate n 0];
            ((yd0, (hd0, cd0)), g1) = step_features_mode (lm tr) md g c None
        in Inr \<lparr>s_out = s0, s_yd = yd0, s_hd = hd0, s_cd = cd0, s_gen = g1\<rparr>
    | _ \<Rightarrow> Inl ValueError)"

definition decode_loop_mode ::
  "('a::linordered_idom, 'p) transducer \<Rightarrow> ('a, 'g) dropout \<Rightarrow> ('a, 'g) sampler \<Rightarrow> 'a tensor3 \<Rightarrow>
   'a list option \<Rightarrow> bool \<Rightarrow> 'a \<Rightarrow> bool \<Rightarrow> nat \<Rightarrow> ('a, 'g) decode_state \<Rightarrow>
   ('a, 'g) decode_state" where
  "decode_loop_mode tr md smp xs prior sampled epsilon argmax t st =
     fold (decode_step_mode tr md smp xs prior sampled epsilon argmax) [0..<t] st"

definition greedy_decode_mode ::
  "('a::linordered_idom, 'p) transducer \<Rightarrow> ('a, 'g) dropout \<Rightarrow> ('a, 'g) sampler \<Rightarrow> 'g \<Rightarrow>
   'a tensor3 \<Rightarrow> 'a list option \<Rightarrow> bool \<Rightarrow> 'a \<Rightarrow> bool \<Rightarrow> error + 'a decoded" where
  "greedy_decode_mode tr md smp g xs prior sampled epsilon argmax = (case dims xs of
      [n, t, h] \<Rightarrow>
        bindE (decode_init_mode tr md g xs argmax) (\<lambda>st.
          Inr (s_out (decode_loop_mode tr md smp xs prior sampled epsilon argmax t st)))
    | _ \<Rightarrow> Inl ValueError)"

section \<open>A small instance\<close>

text \<open>
  A prediction network with one layer and one hidden unit over the integers, on which
  the definitions can be evaluated: the embedding of symbol \<open>v\<close> is \<open>[v]\<close> (so the
  embedding of symbol 0 is the zero vector), the recurrent step adds its input and a bias
  of 1 to the hidden and to the cell state and starts from zeros when no state is given,
  and the projection is the identity. The joint head maps \<open>[a]\<close> to the scores \<open>[0, a]\<close>
  over a vocabulary of two symbols, so a sample emits symbol 1 when \<open>a\<close> is positive and
  the blank symbol 0 otherwise.
\<close>

definition unit_rnn ::
  "int list list list \<Rightarrow> int state option \<Rightarrow> int list list list \<times> int state" where
  "unit_rnn x h =
     (let (h0, c0) = (case h of None \<Rightarrow> (map (map (map (\<lambda>v. 0))) x, map (map (map (\<lambda>v. 0))) x)
                               | Some hc \<Rightarrow> hc);
          h1 = map2 (map2 (map2 (\<lambda>u v. u + v + 1))) x h0;
          c1 = map2 (map2 (map2 (\<lambda>u v. u + v + 1))) x c0
      in (h1, (h1, c1)))"

definition unit_lm :: "(int, unit) language_model" where
  "unit_lm = \<lparr>emb = map (map (\<lambda>v. [v])), rnn = unit_rnn, prj = (\<lambda>x. x),
              num_layers = 1, hidden_size = 1,
              lm_packer = (\<lambda>x ls e. ()), lm_recurrent = (\<lambda>p head. \<lparr>dims = [], cells = []\<rparr>)\<rparr>"

definition unit_transducer :: "(int, unit) transducer" where
  "unit_transducer = \<lparr>blank = 0, vocab_size = 2, lm = unit_lm,
                      fc = (\<lambda>v. [0, v ! 0]), log_softmax = (\<lambda>v. v), texp = (\<lambda>v. v)\<rparr>"

text \<open>Two samplers that disagree on every draw, both over a generator of type \<open>nat\<close>.\<close>

definition const_sampler :: "int \<Rightarrow> (int, nat) sampler" where
  "const_sampler k = \<lparr>multinomial = (\<lambda>g p. (map (\<lambda>row. [k]) p, Suc g)),
                      bernoulli = (\<lambda>g p. (map (\<lambda>v. 0) p, Suc g)),
                      randn_like = (\<lambda>g z. (z, Suc g))\<rparr>"

text \<open>
  Two samples with one acoustic step each, and the state in which the loop starts on them
  (every component is 1 after the first prediction step on the start symbols).
\<close>

definition two_samples :: "int tensor3" where
  "two_samples = \<lparr>dims = [2, 1, 1], cells = [[[- 5]], [[5]]]\<rparr>"

definition two_samples_start :: "(int, nat) decode_state" where
  "two_samples_start =
     \<lparr>s_out = Symbols \<lparr>dims = [2, 1], cells = [[0], [0]]\<rparr>,
      s_yd = [[[1], [1]]], s_hd = [[[1], [1]]], s_cd = [[[1], [1]]], s_gen = 0\<rparr>"

text \<open>One sample with two acoustic steps, and the state in which the loop starts on it.\<close>

definition one_sample :: "int tensor3" where
  "one_sample = \<lparr>dims = [1, 2, 1], cells = [[[- 5], [- 5]]]\<rparr>"

definition one_sample_start :: "(int, nat) decode_state" where
  "one_sample_start =
     \<lparr>s_out = Symbols \<lparr>dims = [1, 2], cells = [[0, 0]]\<rparr>,
      s_yd = [[[1]]], s_hd = [[[1]]], s_cd = [[[1]]], s_gen = 0\<rparr>"

text \<open>A prediction sequence with two label positions for one sample.\<close>

definition two_labels :: "int tensor3" where
  "two_labels = \<lparr>dims = [1, 2, 1], cells = [[[1], [7]]]\<rparr>"

text \<open>A feature map of two samples, one channel, one feature row and three timesteps.\<close>

definition feature_map :: "int tensor4" where
  "feature_map = \<lparr>dims = [2, 1, 1, 3], cells = [[[[1, 2, 3]]], [[[4, 5, 6]]]]\<rparr>"

text \<open>A symbol history of one step for two samples.\<close>

definition history :: "int tensor2" where
  "history = \<lparr>dims = [1, 2], cells = [[3, 4]]\<rparr>"

text \<open>
  An acoustic encoder on which the stack of \<open>AcousticModel\<close> can be run: a convolution
  returns a zero feature map of the shape that the convolution arithmetic gives (batch,
  output channels, reduced feature rows, reduced time), every other layer returns its
  input, the packer keeps the padded sequence with its lengths, and the recurrent stage
  returns the padded sequence it was given.
\<close>

definition zeros4 :: "nat \<Rightarrow> nat \<Rightarrow> nat \<Rightarrow> nat \<Rightarrow> int tensor4" where
  "zeros4 n c d t =
     \<lparr>dims = [n, c, d, t], cells = replicate n (replicate c (replicate d (replicate t 0)))\<rparr>"

definition conv_extent :: "conv2d \<Rightarrow> nat \<Rightarrow> nat \<Rightarrow> nat" where
  "conv_extent cv axis L =
     (case decrease_dim (int L) (Conv2d cv) axis of Inl e \<Rightarrow> 0 | Inr L' \<Rightarrow> nat L')"

definition shape_run :: "layer \<Rightarrow> int tensor4 \<Rightarrow> int tensor4" where
  "shape_run layer x = (case layer of
      Conv2d cv \<Rightarrow> (case dims x of
          [n, c, d, t] \<Rightarrow> zeros4 n (nat (out_channels cv)) (conv_extent cv 0 d) (conv_extent cv 1 t)
        | _ \<Rightarrow> x)
    | _ \<Rightarrow> x)"

definition shape_am :: "(int, int list list list \<times> int list) acoustic_model" where
  "shape_am = \<lparr>conv_layers = am_layers, conv_run = shape_run,
                am_packer = (\<lambda>x ls e. (x, ls)),
                am_recurrent = (\<lambda>p head. \<lparr>dims = shape3 (fst p), cells = fst p\<rparr>)\<rparr>"

text \<open>Feature maps with 40 frequency bins and 4 timesteps, for one and for two samples.\<close>

definition one_utterance :: "int tensor4" where
  "one_utterance = zeros4 1 1 40 4"

definition two_utterances :: "int tensor4" where
  "two_utterances = zeros4 2 1 40 4"

text \<open>
  Two modes for the small prediction network. In \<open>eval_mode\<close> the flag is cleared. In
  \<open>half_dropout\<close> the flag is set and the rate is one half: a draw on an even generator
  state keeps every entry and scales it by \<open>1 / (1 - p) = 2\<close>, a draw on an odd state
  zeroes every entry, and the state advances by one. The network has one layer, so the
  recurrent layer itself draws nothing.
\<close>

definition eval_mode :: "(int, nat) dropout" where
  "eval_mode = \<lparr>training = False, p_drop = 1 / 2,
                draw_rnn = (\<lambda>g x h. (unit_rnn x h, Suc g)),
                draw_prj = (\<lambda>g x. (map (map (map (\<lambda>v. 0))) x, Suc g))\<rparr>"

definition half_dropout :: "(int, nat) dropout" where
  "half_dropout = \<lparr>training = True, p_drop = 1 / 2,
                   draw_rnn = (\<lambda>g x h. (unit_rnn x h, Suc g)),
                   draw_prj = (\<lambda>g x. (if even g then map (map (map (\<lambda>v. 2 * v))) x
                                         else map (map (map (\<lambda>v. 0))) x, Suc g))\<rparr>"

text \<open>One sample with one acoustic step.\<close>

definition quiet_sample :: "int tensor3" where
  "quiet_sample = \<lparr>dims = [1, 1, 1], cells = [[[- 1]]]\<rparr>"

section \<open>Properties of the length arithmetic\<close>

lemma bindE_Inr [simp]: "bindE (Inr x) f = f x"
  by (simp add: bindE_def)

lemma bindE_Inl [simp]: "bindE (Inl e) f = Inl e"
  by (simp add: bindE_def)

lemma tuple_get_time [simp]: "tuple_get p (Suc 0) = Inr (snd p)"
  by (cases p) simp

lemma output_length_spec_conv:
  "output_length_spec (Conv2d cv) L =
     (L + 2 * snd (padding cv) - snd (dilation cv) * (snd (kernel_size cv) - 1) - 1)
       div snd (stride cv) + 1"
  by (simp only: output_length_spec_def layer.case floor_divide_of_int_eq)

lemma decrease_dim_conv:
  "snd (stride cv) \<noteq> 0 \<Longrightarrow>
   decrease_dim x (Conv2d cv) (Suc 0) = Inr (output_length_spec (Conv2d cv) x)"
  by (simp add: decrease_dim_def output_length_spec_conv)

lemma decrease_dim_spec:
  "time_stride_nonzero layer \<Longrightarrow>
   decrease_dim x layer (Suc 0) = Inr (output_length_spec layer x)"
  by (cases layer)
     (simp_all add: decrease_dim_conv time_stride_nonzero_def,
      simp_all add: decrease_dim_def output_length_spec_def)

lemma output_time_fold:
  "list_all time_stride_nonzero layers \<Longrightarrow>
   output_time layers x = Inr (fold output_length_spec layers x)"
  by (induction layers arbitrary: x) (simp_all add: decrease_dim_spec)

text \<open>
  Claim C4. For every input length \<open>L\<close> (the non-negative ones among them):
  \<open>decrease_dim\<close> on a convolution with time-axis padding \<open>p\<close>, dilation \<open>d\<close>, kernel
  \<open>f\<close> and non-zero stride \<open>s\<close> returns \<open>floor ((L + 2p - d (f - 1) - 1) / s) + 1\<close>; on
  every other layer it returns \<open>L\<close>; and \<open>output_time\<close> over a stack is the
  single-layer formula applied layer by layer in stack order.
\<close>

theorem output_length_formula:
  fixes L :: int
  assumes "snd (stride cv) \<noteq> 0"
      and "list_all time_stride_nonzero layers"
  shows "decrease_dim L (Conv2d cv) 1 =
           Inr (\<lfloor>real_of_int (L + 2 * snd (padding cv)
                    - snd (dilation cv) * (snd (kernel_size cv) - 1) - 1)
                  / real_of_int (snd (stride cv))\<rfloor> + 1)
       \<and> decrease_dim L BatchNorm2d 1 = Inr L
       \<and> decrease_dim L ReLU 1 = Inr L
       \<and> decrease_dim L Dropout 1 = Inr L
       \<and> output_time layers L = Inr (fold output_length_spec layers L)
       \<and> output_time (layer # layers) L =
           bindE (decrease_dim L layer 1) (output_time layers)"
proof -
  have a: "decrease_dim L (Conv2d cv) 1 =
           Inr (\<lfloor>real_of_int (L + 2 * snd (padding cv)
                    - snd (dilation cv) * (snd (kernel_size cv) - 1) - 1)
                  / real_of_int (snd (stride cv))\<rfloor> + 1)"
    using decrease_dim_conv [OF assms(1), of L]
    by (simp only: output_length_spec_def layer.case One_nat_def)
  have b: "decrease_dim L BatchNorm2d 1 = Inr L" by (simp add: decrease_dim_def)
  have c: "decrease_dim L ReLU 1 = Inr L" by (simp add: decrease_dim_def)
  have d: "decrease_dim L Dropout 1 = Inr L" by (simp add: decrease_dim_def)
  have e: "output_time layers L = Inr (fold output_length_spec layers L)"
    by (rule output_time_fold [OF assms(2)])
  have f: "output_time (layer # layers) L =
           bindE (decrease_dim L layer 1) (output_time layers)"
    by simp
  from a b c d e f show ?thesis by blast
qed

theorem output_length_formula_witness:
  "snd (stride conv1) \<noteq> 0 \<and> list_all time_stride_nonzero am_layers
   \<and> decrease_dim 101 (Conv2d conv1) 1 = Inr 51
   \<and> decrease_dim 101 ReLU 1 = Inr 101
   \<and> output_time am_layers 101 = Inr 51
   \<and> output_time (Conv2d conv1 # am_layers) 101 = Inr 26"
proof -
  have h1: "snd (stride conv1) \<noteq> 0"
    by (simp add: conv1_def)
  have h2: "list_all time_stride_nonzero am_layers"
    by (simp add: am_layers_def time_stride_nonzero_def conv1_def conv2_def)
  have v1: "output_length_spec (Conv2d conv1) 101 = 51"
    by (simp add: output_length_spec_conv conv1_def)
  have v2: "fold output_length_spec am_layers 101 = 51"
    by (simp add: am_layers_def output_length_spec_conv conv1_def conv2_def
          output_length_spec_def [of BatchNorm2d] output_length_spec_def [of ReLU]
          output_length_spec_def [of Dropout])
  have "fold output_length_spec am_layers 51 = 26"
    by (simp add: am_layers_def output_length_spec_conv conv1_def
          conv2_def output_length_spec_def [of BatchNorm2d] output_length_spec_def [of ReLU]
          output_length_spec_def [of Dropout])
  then have v3: "output_time am_layers 51 = Inr 26"
    by (simp only: output_time_fold [OF h2])
  from output_length_formula [OF h1 h2, of 101 "Conv2d conv1"] h1 h2 v1 v2 v3
  show ?thesis
    by (simp add: output_length_spec_def [of "Conv2d conv1"])
qed

section \<open>The state-carry rule of the decoding loop\<close>

lemma bget_singleton [simp]: "bget [x] k = x"
  by (simp add: bget_def)

lemma bget_in_range: "i < length xs \<Longrightarrow> bget xs i = xs ! i"
  by (auto simp: bget_def)

lemma where3_length [simp]: "length (where3 msk a b) = length a"
  by (simp add: where3_def)

lemma where3_length_nth [simp]:
  "l < length a \<Longrightarrow> length (where3 msk a b ! l) = length (a ! l)"
  by (simp add: where3_def)

lemma where3_length_nth_nth [simp]:
  "l < length a \<Longrightarrow> j < length (a ! l) \<Longrightarrow>
   length (where3 msk a b ! l ! j) = length (a ! l ! j)"
  by (simp add: where3_def)

lemma where3_select:
  assumes "l < length a" and "length (a ! l) = length c" and "j < length c"
      and "length (b ! l ! j) = length (a ! l ! j)"
  shows "where3 [map (\<lambda>v. [v = bl]) c] a b ! l ! j =
           (if c ! j = bl then a ! l ! j else b ! l ! j)"
proof (rule nth_equalityI)
  show "length (where3 [map (\<lambda>v. [v = bl]) c] a b ! l ! j) =
        length (if c ! j = bl then a ! l ! j else b ! l ! j)"
    using assms by simp
next
  fix k assume "k < length (where3 [map (\<lambda>v. [v = bl]) c] a b ! l ! j)"
  then have k: "k < length (a ! l ! j)" using assms by simp
  have "bget (map (\<lambda>v. [v = bl]) c) j = [c ! j = bl]"
    using assms(3) by (simp add: bget_in_range)
  then show "where3 [map (\<lambda>v. [v = bl]) c] a b ! l ! j ! k =
        (if c ! j = bl then a ! l ! j else b ! l ! j) ! k"
    using assms k by (simp add: where3_def)
qed

lemma same_shape3_nth:
  "same_shape3 a b \<Longrightarrow> l < length a \<Longrightarrow> j < length (a ! l) \<Longrightarrow>
   length (b ! l ! j) = length (a ! l ! j)"
  by (simp add: same_shape3_def list_all2_conv_all_nth)

lemma batch_axis_nth: "batch_axis n a \<Longrightarrow> l < length a \<Longrightarrow> length (a ! l) = n"
  by (simp add: batch_axis_def list_all_length)

lemma where3_carry:
  assumes "batch_axis (length c) a" and "same_shape3 a b" and "j < length c"
      and "l < length a"
  shows "where3 [map (\<lambda>v. [v = bl]) c] a b ! l ! j =
           (if c ! j = bl then a ! l ! j else b ! l ! j)"
  using assms by (intro where3_select) (simp_all add: batch_axis_nth same_shape3_nth)

lemma decode_step_fields:
  "s_yd (decode_step tr smp xs prior sampled epsilon argmax i st) =
     where3 [map (\<lambda>v. [v = blank tr]) (emitted tr smp xs prior sampled epsilon i st)] (s_yd st)
       (fst (candidate tr (emitted tr smp xs prior sampled epsilon i st) st))"
  "s_hd (decode_step tr smp xs prior sampled epsilon argmax i st) =
     where3 [map (\<lambda>v. [v = blank tr]) (emitted tr smp xs prior sampled epsilon i st)] (s_hd st)
       (fst (snd (candidate tr (emitted tr smp xs prior sampled epsilon i st) st)))"
  "s_cd (decode_step tr smp xs prior sampled epsilon argmax i st) =
     where3 [map (\<lambda>v. [v = blank tr]) (emitted tr smp xs prior sampled epsilon i st)] (s_cd st)
       (snd (snd (candidate tr (emitted tr smp xs prior sampled epsilon i st) st)))"
  by (simp_all add: decode_step_def emitted_def candidate_def Let_def split: prod.splits)

text \<open>
  Claim C1. At any timestep \<open>i\<close> and from any loop state \<open>st\<close> whose tensors have the batch
  on their second axis, for every sample \<open>j\<close>: after the step, the slices of the hidden
  state, of the cell state and of the prediction-step representation that belong to
  sample \<open>j\<close> are the slices before the step if the symbol emitted for \<open>j\<close> is the blank,
  and the slices of the candidate returned by one prediction step on the emitted symbols
  otherwise. The choice is made sample by sample.
\<close>

theorem state_carry_per_sample:
  fixes tr :: "('a::linordered_idom, 'p) transducer" and st :: "('a, 'g) decode_state"
    and smp xs prior sampled epsilon argmax i
  defines "c \<equiv> emitted tr smp xs prior sampled epsilon i st"
  defines "st' \<equiv> decode_step tr smp xs prior sampled epsilon argmax i st"
  assumes "batch_axis (length c) (s_yd st)"
      and "batch_axis (length c) (s_hd st)"
      and "batch_axis (length c) (s_cd st)"
      and "same_shape3 (s_yd st) (fst (candidate tr c st))"
      and "same_shape3 (s_hd st) (fst (snd (candidate tr c st)))"
      and "same_shape3 (s_cd st) (snd (snd (candidate tr c st)))"
      and "j < length c"
  shows "(\<forall>l<length (s_hd st). s_hd st' ! l ! j =
            (if c ! j = blank tr then s_hd st ! l ! j
             else fst (snd (candidate tr c st)) ! l ! j))
       \<and> (\<forall>l<length (s_cd st). s_cd st' ! l ! j =
            (if c ! j = blank tr then s_cd st ! l ! j
             else snd (snd (candidate tr c st)) ! l ! j))
       \<and> (\<forall>l<length (s_yd st). s_yd st' ! l ! j =
            (if c ! j = blank tr then s_yd st ! l ! j
             else fst (candidate tr c st) ! l ! j))
       \<and> length (s_hd st') = length (s_hd st)
       \<and> length (s_cd st') = length (s_cd st)
       \<and> length (s_yd st') = length (s_yd st)"
  unfolding st'_def decode_step_fields c_def [symmetric]
  using assms(3-9) by (simp add: where3_carry)



lemmas unit_defs =
  emitted_def step_scores_def joint_rows_def joint_def select_time_def emit_def
  torch_argmax_def vadd_def unit_transducer_def unit_lm_def candidate_def step_features_def
  unit_rnn_def two_samples_def two_samples_start_def Let_def numeral_2_eq_2

lemma two_samples_init:
  "decode_init unit_transducer 0 two_samples True = Inr two_samples_start"
  by (simp add: decode_init_def unit_defs)

theorem state_carry_per_sample_witness:
  "emitted unit_transducer (const_sampler 1) two_samples None False 0 0 two_samples_start = [0, 1]
   \<and> blank unit_transducer = 0
   \<and> candidate unit_transducer [0, 1] two_samples_start = ([[[2], [3]]], ([[[2], [3]]], [[[2], [3]]]))
   \<and> s_hd (decode_step unit_transducer (const_sampler 1) two_samples None False 0 True 0
        two_samples_start) = [[[1], [3]]]
   \<and> s_cd (decode_step unit_transducer (const_sampler 1) two_samples None False 0 True 0
        two_samples_start) = [[[1], [3]]]
   \<and> s_yd (decode_step unit_transducer (const_sampler 1) two_samples None False 0 True 0
        two_samples_start) = [[[1], [3]]]"
proof -
  let ?st = two_samples_start
  let ?st' = "decode_step unit_transducer (const_sampler 1) two_samples None False 0 True 0 ?st"
  have e: "emitted unit_transducer (const_sampler 1) two_samples None False 0 0 ?st = [0, 1]"
    by (simp add: unit_defs)
  have b: "blank unit_transducer = 0"
    by (simp add: unit_transducer_def)
  have c: "candidate unit_transducer [0, 1] ?st = ([[[2], [3]]], ([[[2], [3]]], [[[2], [3]]]))"
    by (simp add: unit_defs)
  let ?c = "emitted unit_transducer (const_sampler 1) two_samples None False 0 0 ?st"
  have st: "s_hd ?st = [[[1], [1]]]" "s_cd ?st = [[[1], [1]]]" "s_yd ?st = [[[1], [1]]]"
    by (simp_all add: two_samples_start_def)
  have sh: "batch_axis (length ?c) (s_yd ?st)" "batch_axis (length ?c) (s_hd ?st)"
    "batch_axis (length ?c) (s_cd ?st)"
    "same_shape3 (s_yd ?st) (fst (candidate unit_transducer ?c ?st))"
    "same_shape3 (s_hd ?st) (fst (snd (candidate unit_transducer ?c ?st)))"
    "same_shape3 (s_cd ?st) (snd (snd (candidate unit_transducer ?c ?st)))"
    by (simp_all add: e c st batch_axis_def same_shape3_def)
  have j0: "0 < length ?c" and j1: "1 < length ?c"
    by (simp_all add: e)
  have k0: "s_hd ?st' ! 0 ! 0 = [1] \<and> s_cd ?st' ! 0 ! 0 = [1] \<and> s_yd ?st' ! 0 ! 0 = [1]
      \<and> length (s_hd ?st') = 1 \<and> length (s_cd ?st') = 1 \<and> length (s_yd ?st') = 1"
    using state_carry_per_sample [OF sh j0, of True] by (simp add: e b c st)
  have k1: "s_hd ?st' ! 0 ! 1 = [3] \<and> s_cd ?st' ! 0 ! 1 = [3] \<and> s_yd ?st' ! 0 ! 1 = [3]"
    using state_carry_per_sample [OF sh j1, of True] by (simp add: e b c st)
  have len: "length (s_hd ?st' ! 0) = 2" "length (s_cd ?st' ! 0) = 2" "length (s_yd ?st' ! 0) = 2"
    by (simp_all add: decode_step_fields st)
  have two: "xs = [[a, b']]" if "length xs = 1" "length (xs ! 0) = 2" "xs ! 0 ! 0 = a" "xs ! 0 ! 1 = b'"
    for xs :: "int list list list" and a b'
  proof -
    from that(1) obtain r where r: "xs = [r]" by (cases xs) auto
    with that(2) obtain u v where "r = [u, v]"
      by (cases r; cases "tl r") auto
    with r that(3,4) show ?thesis by simp
  qed
  from k0 k1 len have "s_hd ?st' = [[[1], [3]]]" "s_cd ?st' = [[[1], [3]]]" "s_yd ?st' = [[[1], [3]]]"
    by (auto intro: two)
  with e b c show ?thesis by simp
qed

section \<open>Decoding a sample that only emits blanks\<close>

lemma where3_keep:
  assumes "batch_axis (length c) a" and "\<forall>j<length c. c ! j = bl"
  shows "where3 [map (\<lambda>v. [v = bl]) c] a b = a"
proof -
  have "where3 [map (\<lambda>v. [v = bl]) c] a b ! l ! j ! k = a ! l ! j ! k"
    if "l < length a" "j < length (a ! l)" "k < length (a ! l ! j)" for l j k
  proof -
    from that assms(1) have j: "j < length c" by (simp add: batch_axis_nth)
    then have "bget (map (\<lambda>v. [v = bl]) c) j = [True]"
      using assms(2) by (simp add: bget_in_range)
    with that show ?thesis by (simp add: where3_def)
  qed
  then show ?thesis
    by (simp add: list_eq_iff_nth_eq)
qed

lemma where3_keep_single:
  assumes "batch_axis 1 a"
  shows "where3 [[[True]]] a b = a"
  using where3_keep [of "[0::int]" a 0 b] assms by simp

lemma step_scores_cong:
  "s_yd st = s_yd st' \<Longrightarrow> step_scores tr xs prior i st = step_scores tr xs prior i st'"
  by (simp add: step_scores_def)

lemma emitted_argmax:
  "emitted tr smp xs prior False epsilon i st = map torch_argmax (step_scores tr xs prior i st)"
  by (simp add: emitted_def emit_def)

lemma decode_loop_Suc:
  "decode_loop tr smp xs prior sampled epsilon argmax (Suc k) st =
     decode_step tr smp xs prior sampled epsilon argmax k
       (decode_loop tr smp xs prior sampled epsilon argmax k st)"
  by (simp add: decode_loop_def)

lemma decode_loop_0 [simp]:
  "decode_loop tr smp xs prior sampled epsilon argmax 0 st = st"
  by (simp add: decode_loop_def)

lemma all_blank_keeps_state:
  fixes tr :: "('a::linordered_idom, 'p) transducer" and st :: "('a, 'g) decode_state"
  assumes "batch_axis 1 (s_yd st)" and "batch_axis 1 (s_hd st)" and "batch_axis 1 (s_cd st)"
      and "\<forall>i<T. map torch_argmax (step_scores tr xs prior i st) = [blank tr]"
      and "k \<le> T"
  shows "s_yd (decode_loop tr smp xs prior False epsilon argmax k st) = s_yd st
       \<and> s_hd (decode_loop tr smp xs prior False epsilon argmax k st) = s_hd st
       \<and> s_cd (decode_loop tr smp xs prior False epsilon argmax k st) = s_cd st"
  using assms(5)
proof (induction k)
  case 0
  show ?case by simp
next
  case (Suc k)
  let ?s = "decode_loop tr smp xs prior False epsilon argmax k st"
  from Suc have keep: "s_yd ?s = s_yd st" "s_hd ?s = s_hd st" "s_cd ?s = s_cd st"
    by simp_all
  from Suc.prems assms(4) have "map torch_argmax (step_scores tr xs prior k st) = [blank tr]"
    by simp
  then have e: "emitted tr smp xs prior False epsilon k ?s = [blank tr]"
    by (simp add: emitted_argmax step_scores_cong [OF keep(1)])
  show ?case
    unfolding decode_loop_Suc decode_step_fields e keep
    using assms(1-3) by (simp add: where3_keep_single)
qed

text \<open>
  Claim C2, as amended. In a single-sample decode with the argmax policy in which the
  argmax of every one of the \<open>T\<close> timesteps is the blank, the prediction-step
  representation and the recurrent state held after the loop are the ones that the first
  prediction step, on the start symbol 0 with no incoming state, returned.
\<close>

theorem all_blank_final_state:
  fixes tr :: "('a::linordered_idom, 'p) transducer" and st0 :: "('a, 'g) decode_state"
  assumes "dims xs = [1, T, h]"
      and "decode_init tr g xs argmax = Inr st0"
      and "batch_axis 1 (s_yd st0)" and "batch_axis 1 (s_hd st0)" and "batch_axis 1 (s_cd st0)"
      and "\<forall>i<T. map torch_argmax (step_scores tr xs prior i st0) = [blank tr]"
  shows "(s_yd (decode_loop tr smp xs prior False epsilon argmax T st0),
          s_hd (decode_loop tr smp xs prior False epsilon argmax T st0),
          s_cd (decode_loop tr smp xs prior False epsilon argmax T st0))
         = step_features (lm tr) [[0]] None"
proof -
  from assms(1,2) have "(s_yd st0, s_hd st0, s_cd st0) = step_features (lm tr) [[0]] None"
    by (auto simp: decode_init_def Let_def split: prod.splits)
  with all_blank_keeps_state [OF assms(3-6) order_refl, of smp epsilon argmax]
  show ?thesis by simp
qed

lemmas one_defs =
  step_scores_def joint_rows_def joint_def select_time_def emit_def
  torch_argmax_def vadd_def unit_transducer_def unit_lm_def candidate_def step_features_def
  unit_rnn_def one_sample_def one_sample_start_def Let_def

lemma one_sample_init:
  "decode_init unit_transducer 0 one_sample True = Inr one_sample_start"
  by (simp add: decode_init_def one_defs numeral_2_eq_2)

lemma one_sample_scores:
  "s_yd st = [[[1]]] \<Longrightarrow> i < 2 \<Longrightarrow>
   map torch_argmax (step_scores unit_transducer one_sample None i st) = [0]"
  by (cases i) (simp_all add: one_defs)

lemma one_sample_step:
  assumes "s_yd st = [[[1]]]" "s_hd st = [[[1]]]" "s_cd st = [[[1]]]" "i < 2"
  shows "s_yd (decode_step unit_transducer smp one_sample None False e am i st) = [[[1]]]
       \<and> s_hd (decode_step unit_transducer smp one_sample None False e am i st) = [[[1]]]
       \<and> s_cd (decode_step unit_transducer smp one_sample None False e am i st) = [[[1]]]"
  using assms one_sample_scores [OF assms(1,4)]
  by (simp add: decode_step_fields emitted_argmax where3_def unit_transducer_def)

lemma decode_step_out:
  "s_out (decode_step tr smp xs prior False e am i st) =
     record_step am i (map torch_argmax (step_scores tr xs prior i st))
       (step_scores tr xs prior i st) (s_out st)"
  by (simp add: decode_step_def emit_def Let_def split: prod.splits)

lemma decode_loop_2:
  "decode_loop tr smp xs prior sampled e am 2 st =
     decode_step tr smp xs prior sampled e am 1 (decode_step tr smp xs prior sampled e am 0 st)"
  by (simp add: decode_loop_def numeral_2_eq_2)

text \<open>
  Claim C2 as stated fails: on the one-unit instance every step emits the blank, and the
  hidden and cell state after the loop are 1, the value the first prediction step gave
  them, while \<open>step_init\<close> is all zeros.
\<close>

theorem all_blank_state_not_zero:
  "greedy_decode unit_transducer (const_sampler 1) 0 one_sample None False 0 True
     = Inr (Symbols \<lparr>dims = [1, 2], cells = [[0, 0]]\<rparr>)
   \<and> blank unit_transducer = 0
   \<and> s_hd (decode_loop unit_transducer (const_sampler 1) one_sample None False 0 True 2
        one_sample_start) = [[[1]]]
   \<and> s_cd (decode_loop unit_transducer (const_sampler 1) one_sample None False 0 True 2
        one_sample_start) = [[[1]]]
   \<and> step_init (lm unit_transducer) 1 = ([[[0]]], [[[0]]])
   \<and> (s_hd (decode_loop unit_transducer (const_sampler 1) one_sample None False 0 True 2
          one_sample_start),
        s_cd (decode_loop unit_transducer (const_sampler 1) one_sample None False 0 True 2
          one_sample_start)) \<noteq> step_init (lm unit_transducer) 1"
proof -
  let ?s0 = one_sample_start
  let ?s1 = "decode_step unit_transducer (const_sampler 1) one_sample None False 0 True 0 ?s0"
  let ?s2 = "decode_step unit_transducer (const_sampler 1) one_sample None False 0 True 1 ?s1"
  have s0: "s_yd ?s0 = [[[1]]]" "s_hd ?s0 = [[[1]]]" "s_cd ?s0 = [[[1]]]"
    by (simp_all add: one_sample_start_def)
  have s1: "s_yd ?s1 = [[[1]]]" "s_hd ?s1 = [[[1]]]" "s_cd ?s1 = [[[1]]]"
    using one_sample_step [OF s0, of 0] by simp_all
  have s2: "s_yd ?s2 = [[[1]]]" "s_hd ?s2 = [[[1]]]" "s_cd ?s2 = [[[1]]]"
    using one_sample_step [OF s1, of 1] by simp_all
  have c0: "map torch_argmax (step_scores unit_transducer one_sample None 0 ?s0) = [0]"
    using one_sample_scores [OF s0(1), of 0] by simp
  have c1: "map torch_argmax (step_scores unit_transducer one_sample None 1 ?s1) = [0]"
    using one_sample_scores [OF s1(1), of 1] by simp
  have o0: "s_out ?s0 = Symbols \<lparr>dims = [1, 2], cells = [[0, 0]]\<rparr>"
    by (simp add: one_sample_start_def)
  have "s_out ?s1 = record_step True 0 [0]
      (step_scores unit_transducer one_sample None 0 ?s0)
      (Symbols \<lparr>dims = [1, 2], cells = [[0, 0]]\<rparr>)"
    unfolding decode_step_out c0 o0 ..
  then have o1: "s_out ?s1 = Symbols \<lparr>dims = [1, 2], cells = [[0, 0]]\<rparr>"
    by (simp add: record_step_def)
  have "s_out ?s2 = record_step True 1 (map torch_argmax
        (step_scores unit_transducer one_sample None 1 ?s1))
      (step_scores unit_transducer one_sample None 1 ?s1) (s_out ?s1)"
    by (rule decode_step_out)
  then have o2: "s_out ?s2 = Symbols \<lparr>dims = [1, 2], cells = [[0, 0]]\<rparr>"
    by (simp only: c1 o1) (simp add: record_step_def)
  have g: "greedy_decode unit_transducer (const_sampler 1) 0 one_sample None False 0 True
     = Inr (Symbols \<lparr>dims = [1, 2], cells = [[0, 0]]\<rparr>)"
  proof -
    have d: "dims one_sample = [1, 2, 1]"
      by (simp add: one_sample_def)
    show ?thesis
      using o2 by (simp add: greedy_decode_def d one_sample_init decode_loop_2)
  qed
  have z: "step_init (lm unit_transducer) 1 = ([[[0]]], [[[0]]])"
    by (simp add: step_init_def unit_transducer_def unit_lm_def)
  have b: "blank unit_transducer = 0"
    by (simp add: unit_transducer_def)
  from s2 z show ?thesis
    by (simp add: g b decode_loop_2)
qed

theorem all_blank_final_state_witness:
  "dims one_sample = [1, 2, 1]
   \<and> decode_init unit_transducer 0 one_sample True = Inr one_sample_start
   \<and> batch_axis 1 (s_yd one_sample_start) \<and> batch_axis 1 (s_hd one_sample_start)
   \<and> batch_axis 1 (s_cd one_sample_start)
   \<and> map torch_argmax (step_scores unit_transducer one_sample None 0 one_sample_start)
       = [blank unit_transducer]
   \<and> map torch_argmax (step_scores unit_transducer one_sample None 1 one_sample_start)
       = [blank unit_transducer]
   \<and> (s_yd (decode_loop unit_transducer (const_sampler 1) one_sample None False 0 True 2
          one_sample_start),
        s_hd (decode_loop unit_transducer (const_sampler 1) one_sample None False 0 True 2
          one_sample_start),
        s_cd (decode_loop unit_transducer (const_sampler 1) one_sample None False 0 True 2
          one_sample_start))
       = step_features (lm unit_transducer) [[0]] None
   \<and> step_features (lm unit_transducer) [[0]] None = ([[[1]]], [[[1]]], [[[1]]])"
proof -
  have d: "dims one_sample = [1, 2, 1]"
    by (simp add: one_sample_def)
  have ax: "batch_axis 1 (s_yd one_sample_start)" "batch_axis 1 (s_hd one_sample_start)"
    "batch_axis 1 (s_cd one_sample_start)"
    by (simp_all add: batch_axis_def one_sample_start_def)
  have y: "s_yd one_sample_start = [[[1]]]"
    by (simp add: one_sample_start_def)
  have b: "blank unit_transducer = 0"
    by (simp add: unit_transducer_def)
  have blanks: "\<forall>i<2. map torch_argmax (step_scores unit_transducer one_sample None i
      one_sample_start) = [blank unit_transducer]"
    by (simp add: one_sample_scores [OF y] b)
  have f: "step_features (lm unit_transducer) [[0]] None = ([[[1]]], [[[1]]], [[[1]]])"
    by (simp add: one_defs)
  from all_blank_final_state [OF d one_sample_init ax blanks, of "const_sampler 1" 0]
    d one_sample_init ax blanks f
  show ?thesis by simp
qed

section \<open>The all-pairs joint against the single-pair joint\<close>

lemma nth_map2:
  "k < length xs \<Longrightarrow> k < length ys \<Longrightarrow> map2 f xs ys ! k = f (xs ! k) (ys ! k)"
  by simp

lemma wf3_nth:
  assumes "wf3 x" and "dims x = [n, t, h]"
  shows "length (cells x) = n"
    and "b < n \<Longrightarrow> length (cells x ! b) = t"
    and "b < n \<Longrightarrow> i < t \<Longrightarrow> length (cells x ! b ! i) = h"
  using assms by (simp_all add: wf3_def list_all_length)

text \<open>
  Claim C3. On an acoustic sequence of shape (n, t, h) and a prediction sequence of shape
  (n, u, h), \<open>forward_joint\<close> returns a grid of shape (n, t, u) whose entry at batch index
  \<open>b\<close>, timestep \<open>i\<close> and label position \<open>j\<close> is \<open>joint\<close> of the acoustic vector
  \<open>xs[b, i]\<close> and the prediction vector \<open>ys[b, j]\<close>: the same sum, the same head and the
  same normalisation as the single-pair function.
\<close>

theorem forward_joint_slices:
  fixes tr :: "('a::plus, 'p) transducer"
  assumes "wf3 xs" and "wf3 ys"
      and "dims xs = [n, t, h]" and "dims ys = [n, u, h]"
  shows "\<exists>zs. forward_joint tr xs ys = Inr zs \<and> length zs = n
          \<and> (\<forall>b<n. length (zs ! b) = t
               \<and> (\<forall>i<t. length (zs ! b ! i) = u
                    \<and> (\<forall>j<u. zs ! b ! i ! j =
                          joint tr (cells xs ! b ! i) (cells ys ! b ! j))))"
proof -
  define x where "x = map (\<lambda>b. map (\<lambda>v. replicate u v) (bget (cells xs) b)) [0..<n]"
  define y where "y = map (\<lambda>w. replicate t w) (cells ys)"
  note X = wf3_nth [OF assms(1,3)] and Y = wf3_nth [OF assms(2,4)]
  have fj: "forward_joint tr xs ys = Inr (joint_grid tr x y)"
    by (simp add: forward_joint_def assms(3,4) x_def y_def)
  have xb: "x ! b ! i = replicate u (cells xs ! b ! i)" if "b < n" "i < t" for b i
    using that X by (simp add: x_def bget_in_range)
  have yb: "y ! b ! i = cells ys ! b" if "b < n" "i < t" for b i
    using that Y by (simp add: y_def)
  have lx: "length x = n" "\<And>b. b < n \<Longrightarrow> length (x ! b) = t"
    using X by (simp_all add: x_def bget_in_range)
  have ly: "length y = n" "\<And>b. b < n \<Longrightarrow> length (y ! b) = t"
    using Y by (simp_all add: y_def)
  have "length (joint_grid tr x y) = n"
    by (simp add: joint_grid_def lx ly)
  moreover have "length (joint_grid tr x y ! b) = t" if "b < n" for b
    using that by (simp add: joint_grid_def lx ly)
  moreover have "length (joint_grid tr x y ! b ! i) = u" if "b < n" "i < t" for b i
    using that Y by (simp add: joint_grid_def lx ly xb yb)
  moreover have "joint_grid tr x y ! b ! i ! j = joint tr (cells xs ! b ! i) (cells ys ! b ! j)"
    if "b < n" "i < t" "j < u" for b i j
    using that Y by (simp add: joint_grid_def lx ly xb yb)
  ultimately show ?thesis
    using fj by simp
qed

theorem forward_joint_slices_witness:
  "wf3 one_sample \<and> wf3 two_labels
   \<and> dims one_sample = [1, 2, 1] \<and> dims two_labels = [1, 2, 1]
   \<and> (\<exists>zs. forward_joint unit_transducer one_sample two_labels = Inr zs
         \<and> zs ! 0 ! 0 ! 1 = joint unit_transducer [- 5] [7]
         \<and> zs ! 0 ! 1 ! 0 = joint unit_transducer [- 5] [1])
   \<and> joint unit_transducer [- 5] [7] = [0, 2]
   \<and> joint unit_transducer [- 5] [1] = [0, - 4]"
proof -
  have w: "wf3 one_sample" "wf3 two_labels"
    by (simp_all add: wf3_def one_sample_def two_labels_def)
  have d: "dims one_sample = [1, 2, 1]" "dims two_labels = [1, 2, 1]"
    by (simp_all add: one_sample_def two_labels_def)
  have c: "cells one_sample ! 0 ! 0 = [- 5]" "cells one_sample ! 0 ! 1 = [- 5]"
    "cells two_labels ! 0 ! 0 = [1]" "cells two_labels ! 0 ! 1 = [7]"
    by (simp_all add: one_sample_def two_labels_def)
  have j: "joint unit_transducer [- 5] [7] = [0, 2]" "joint unit_transducer [- 5] [1] = [0, - 4]"
    by (simp_all add: joint_def vadd_def unit_transducer_def)
  from forward_joint_slices [OF w d, of unit_transducer]
  obtain zs where zs: "forward_joint unit_transducer one_sample two_labels = Inr zs"
    and sl: "\<forall>b<1. length (zs ! b) = 2 \<and> (\<forall>i<2. length (zs ! b ! i) = 2
      \<and> (\<forall>j<2. zs ! b ! i ! j =
            joint unit_transducer (cells one_sample ! b ! i) (cells two_labels ! b ! j)))"
    by blast
  from sl have "zs ! 0 ! 0 ! 1 = joint unit_transducer [- 5] [7]"
    "zs ! 0 ! 1 ! 0 = joint unit_transducer [- 5] [1]"
    using c by (auto simp: numeral_2_eq_2)
  with zs w d j show ?thesis by blast
qed

section \<open>What the temporal mask zeroes\<close>

lemma narrow_fill_inside:
  assumes "0 \<le> start" and "start < int t"
  shows "narrow_fill t m start (int t - start) = Inr (mark_from t start m)"
  using assms by (simp add: narrow_fill_def mark_from_def)

lemma mark_from_outside: "int t \<le> start \<Longrightarrow> mark_from t start m = m"
  by (simp add: mark_from_def)

lemma fill_mask_enumerate:
  assumes "\<forall>l\<in>set ls. 0 \<le> l" and "i0 + length ls \<le> length (cells m)"
  shows "\<exists>m'. fill_mask t (enumerate i0 ls) m = Inr m' \<and> dims m' = dims m
           \<and> length (cells m') = length (cells m)
           \<and> (\<forall>i<length (cells m). cells m' ! i =
                 (if i0 \<le> i \<and> i < i0 + length ls
                  then mark_from t (ls ! (i - i0)) (cells m ! i) else cells m ! i))"
  using assms
proof (induction ls arbitrary: i0 m)
  case Nil
  then show ?case by auto
next
  case (Cons l ls)
  define m1 where "m1 = (if l < int t
      then m\<lparr>cells := (cells m)[i0 := mark_from t l (cells m ! i0)]\<rparr> else m)"
  have step: "fill_mask t (enumerate i0 (l # ls)) m = fill_mask t (enumerate (Suc i0) ls) m1"
    using Cons.prems by (simp add: m1_def narrow_fill_inside Let_def)
  have len1: "length (cells m1) = length (cells m)" and d1: "dims m1 = dims m"
    by (simp_all add: m1_def)
  have c1: "cells m1 ! i = (if i = i0 then mark_from t l (cells m ! i0) else cells m ! i)"
    if "i < length (cells m)" for i
    using that by (simp add: m1_def mark_from_outside nth_list_update)
  from Cons.prems have "\<forall>l\<in>set ls. 0 \<le> l" "Suc i0 + length ls \<le> length (cells m1)"
    by (simp_all add: len1)
  from Cons.IH [OF this] obtain m' where
    m': "fill_mask t (enumerate (Suc i0) ls) m1 = Inr m'" "dims m' = dims m1"
      "length (cells m') = length (cells m1)"
      "\<forall>i<length (cells m1). cells m' ! i =
         (if Suc i0 \<le> i \<and> i < Suc i0 + length ls
          then mark_from t (ls ! (i - Suc i0)) (cells m1 ! i) else cells m1 ! i)"
    by blast
  have "cells m' ! i =
      (if i0 \<le> i \<and> i < i0 + length (l # ls)
       then mark_from t ((l # ls) ! (i - i0)) (cells m ! i) else cells m ! i)"
    if "i < length (cells m)" for i
  proof (cases "i = i0")
    case True
    with that m'(4) c1 [OF that] show ?thesis by (simp add: len1)
  next
    case False
    with that m'(4) c1 [OF that] show ?thesis
      by (cases "i0 < i") (simp_all add: len1 nth_Cons' Suc_diff_Suc)
  qed
  with step m'(1-3) len1 d1 show ?case by simp
qed

lemma wf4_nth:
  assumes "wf4 x" and "dims x = [n, c, d, t]"
  shows "length (cells x) = n"
    and "i < n \<Longrightarrow> length (cells x ! i) = c"
    and "i < n \<Longrightarrow> j < c \<Longrightarrow> length (cells x ! i ! j) = d"
    and "i < n \<Longrightarrow> j < c \<Longrightarrow> k < d \<Longrightarrow> length (cells x ! i ! j ! k) = t"
  using assms by (simp_all add: wf4_def list_all_length)

lemma temporal_mask_flags:
  assumes "dims x = [n, c, d, t]" and "length lengths = n" and "\<forall>l\<in>set lengths. 0 \<le> l"
  shows "\<exists>m. temporal_mask x lengths = Inr m \<and> dims m = [n, 1, 1, t]
           \<and> length (cells m) = n
           \<and> (\<forall>i<n. \<forall>j k. \<forall>\<tau><t.
                 bget (bget (bget (bget (cells m) i) j) k) \<tau> = (lengths ! i \<le> int \<tau>))"
proof -
  have "0 + length lengths \<le> length (cells (zeros_mask n t))"
    by (simp add: zeros_mask_def assms(2))
  from fill_mask_enumerate [OF assms(3) this, of t] obtain m where
    m: "fill_mask t (enumerate 0 lengths) (zeros_mask n t) = Inr m"
      "dims m = dims (zeros_mask n t)" "length (cells m) = length (cells (zeros_mask n t))"
      "\<forall>i<length (cells (zeros_mask n t)). cells m ! i =
         (if 0 \<le> i \<and> i < 0 + length lengths
          then mark_from t (lengths ! (i - 0)) (cells (zeros_mask n t) ! i)
          else cells (zeros_mask n t) ! i)"
    by blast
  have mi: "cells m ! i = mark_from t (lengths ! i) [[replicate t False]]" if "i < n" for i
    using m(4) that by (simp add: zeros_mask_def assms(2))
  have "bget (bget (bget (bget (cells m) i) j) k) \<tau> = (lengths ! i \<le> int \<tau>)"
    if "i < n" "\<tau> < t" for i j k \<tau>
  proof -
    have "bget (cells m) i = cells m ! i"
      using that m(3) by (simp add: bget_in_range zeros_mask_def)
    then show ?thesis
      using that by (auto simp: mi mark_from_def bget_in_range)
  qed
  with m(1-3) show ?thesis
    by (simp add: temporal_mask_def assms(1) zeros_mask_def)
qed

text \<open>
  Claim C5. For a feature map of shape (n, c, d, t) and one non-negative valid length per
  sample, building the mask succeeds and filling with it yields a tensor of the same
  shape in which, for every sample \<open>i\<close>, channel, feature row and timestep \<open>\<tau>\<close>, the
  value is zero when \<open>\<tau>\<close> is at or past the valid length of \<open>i\<close> and the input's value
  when it is before; a sample whose valid length is at least \<open>t\<close> is left as it was.
\<close>

theorem temporal_mask_zeroes_padding:
  fixes x :: "'a::zero tensor4"
  assumes "wf4 x" and "dims x = [n, c, d, t]"
      and "length lengths = n" and "\<forall>l\<in>set lengths. 0 \<le> l"
  shows "\<exists>m y. temporal_mask x lengths = Inr m \<and> masked_fill x m 0 = Inr y
           \<and> dims y = dims x \<and> wf4 y
           \<and> (\<forall>i<n. \<forall>j<c. \<forall>k<d. \<forall>\<tau><t. cells y ! i ! j ! k ! \<tau> =
                 (if lengths ! i \<le> int \<tau> then 0 else cells x ! i ! j ! k ! \<tau>))
           \<and> (\<forall>i<n. int t \<le> lengths ! i \<longrightarrow> cells y ! i = cells x ! i)"
proof -
  note X = wf4_nth [OF assms(1,2)]
  from temporal_mask_flags [OF assms(2-4)] obtain m where
    m: "temporal_mask x lengths = Inr m" "dims m = [n, 1, 1, t]"
    and flags: "\<And>i j k \<tau>. i < n \<Longrightarrow> \<tau> < t \<Longrightarrow>
        bget (bget (bget (bget (cells m) i) j) k) \<tau> = (lengths ! i \<le> int \<tau>)"
    by blast
  define y where "y = x\<lparr>cells :=
          map (\<lambda>(i, xi).
            map (\<lambda>(c, xc).
              map (\<lambda>(d, xd).
                map (\<lambda>(k, e).
                  if bget (bget (bget (bget (cells m) i) c) d) k then 0 else e)
                  (enumerate 0 xd))
                (enumerate 0 xc))
              (enumerate 0 xi))
            (enumerate 0 (cells x))\<rparr>"
  have mf: "masked_fill x m 0 = Inr y"
    by (simp add: masked_fill_def broadcastable_def m(2) assms(2) y_def)
  have dy: "dims y = dims x"
    by (simp add: y_def)
  have ly: "length (cells y) = n" "\<And>i. i < n \<Longrightarrow> length (cells y ! i) = c"
    "\<And>i j. i < n \<Longrightarrow> j < c \<Longrightarrow> length (cells y ! i ! j) = d"
    "\<And>i j k. i < n \<Longrightarrow> j < c \<Longrightarrow> k < d \<Longrightarrow> length (cells y ! i ! j ! k) = t"
    using X by (simp_all add: y_def nth_enumerate_eq)
  have wy: "wf4 y"
    using ly by (simp add: wf4_def dy assms(2) list_all_length)
  have val: "cells y ! i ! j ! k ! \<tau> =
      (if lengths ! i \<le> int \<tau> then 0 else cells x ! i ! j ! k ! \<tau>)"
    if "i < n" "j < c" "k < d" "\<tau> < t" for i j k \<tau>
    using that X flags by (simp add: y_def nth_enumerate_eq)
  have same: "cells y ! i = cells x ! i" if "i < n" "int t \<le> lengths ! i" for i
    using that X ly val by (auto simp: list_eq_iff_nth_eq)
  from m(1) mf dy wy val same show ?thesis
    by blast
qed

theorem temporal_mask_zeroes_padding_witness:
  "wf4 feature_map \<and> dims feature_map = [2, 1, 1, 3] \<and> length [1, 3 :: int] = 2
   \<and> (\<exists>m y. temporal_mask feature_map [1, 3] = Inr m \<and> masked_fill feature_map m 0 = Inr y
         \<and> cells y ! 0 ! 0 ! 0 ! 0 = 1 \<and> cells y ! 0 ! 0 ! 0 ! 1 = 0
         \<and> cells y ! 0 ! 0 ! 0 ! 2 = 0 \<and> cells y ! 1 = [[[4, 5, 6]]])"
proof -
  have w: "wf4 feature_map" and d: "dims feature_map = [2, 1, 1, 3]"
    by (simp_all add: wf4_def feature_map_def)
  have l: "length [1, 3 :: int] = 2" and p: "\<forall>l\<in>set [1, 3 :: int]. 0 \<le> l"
    by simp_all
  have c: "cells feature_map ! 0 ! 0 ! 0 ! 0 = 1" "cells feature_map ! 1 = [[[4, 5, 6]]]"
    by (simp_all add: feature_map_def)
  from temporal_mask_zeroes_padding [OF w d l p] obtain m y where
    my: "temporal_mask feature_map [1, 3] = Inr m" "masked_fill feature_map m 0 = Inr y"
    and val: "\<forall>i<2. \<forall>j<1. \<forall>k<1. \<forall>\<tau><3. cells y ! i ! j ! k ! \<tau> =
        (if [1, 3] ! i \<le> int \<tau> then 0 else cells feature_map ! i ! j ! k ! \<tau>)"
    and same: "\<forall>i<2. int 3 \<le> [1, 3] ! i \<longrightarrow> cells y ! i = cells feature_map ! i"
    by blast
  from val have "cells y ! 0 ! 0 ! 0 ! 0 = 1" "cells y ! 0 ! 0 ! 0 ! 1 = 0"
    "cells y ! 0 ! 0 ! 0 ! 2 = 0"
    using c by (auto simp: numeral_2_eq_2 numeral_3_eq_3)
  moreover from same have "cells y ! 1 = [[[4, 5, 6]]]"
    using c by (auto simp: numeral_2_eq_2)
  ultimately show ?thesis
    using w d l my by blast
qed

section \<open>The start symbol\<close>

text \<open>
  Claim C10. The start symbol is the constant 0 in both modes. In sequence mode the row put
  before a symbol history of batch size \<open>n\<close> is \<open>n\<close> zeros, and that is what the embedding
  receives first; the decoding loop starts from the prediction step on \<open>n\<close> zeros with no
  incoming state. Neither depends on the configured blank id, so with a blank id other
  than 0 the start symbol is not the blank.
\<close>

theorem start_symbol_is_zero:
  fixes tr :: "('a::linordered_idom, 'p) transducer" and pnet :: "('b, 'q) language_model"
  assumes "dims x = [u, n]" and "dims xs = [n, t, h]"
  shows "prepend_init x = Inr (replicate n 0 # cells x)
       \<and> LanguageModel_forward pnet x lengths head =
           bindE (pack_padded_sequence (lm_packer pnet)
                    \<lparr>dims = shape3 (emb pnet (replicate n 0 # cells x)),
                     cells = emb pnet (replicate n 0 # cells x)\<rparr>
                    (map (\<lambda>l. l + 1) lengths) False)
             (\<lambda>packed. Inr (lm_recurrent pnet packed head))
       \<and> (\<exists>st. decode_init tr g xs argmax = Inr st
             \<and> (s_yd st, s_hd st, s_cd st) = step_features (lm tr) [replicate n 0] None)
       \<and> decode_init (tr\<lparr>blank := b\<rparr>) g xs argmax = decode_init tr g xs argmax
       \<and> (blank tr \<noteq> 0 \<longrightarrow> blank tr \<notin> set (replicate n 0))"
  using assms
  by (auto simp: prepend_init_def LanguageModel_forward_def decode_init_def Let_def
      split: prod.splits)

theorem start_symbol_is_zero_witness:
  "dims history = [1, 2] \<and> dims two_samples = [2, 1, 1]
   \<and> blank (unit_transducer\<lparr>blank := 5\<rparr>) = 5
   \<and> prepend_init history = Inr [[0, 0], [3, 4]]
   \<and> decode_init (unit_transducer\<lparr>blank := 5\<rparr>) 0 two_samples True = Inr two_samples_start
   \<and> (s_yd two_samples_start, s_hd two_samples_start, s_cd two_samples_start)
       = step_features (lm (unit_transducer\<lparr>blank := 5\<rparr>)) [[0, 0]] None
   \<and> (5::int) \<notin> set [0, 0]"
proof -
  have d: "dims history = [1, 2]" "dims two_samples = [2, 1, 1]"
    by (simp_all add: history_def two_samples_def)
  have c: "cells history = [[3, 4]]"
    by (simp add: history_def)
  have b: "blank (unit_transducer\<lparr>blank := 5\<rparr>) = 5"
    by simp
  note T = start_symbol_is_zero [OF d, where tr = "unit_transducer\<lparr>blank := 5\<rparr>"
      and pnet = unit_lm and lengths = "[]" and head = True and g = "0::nat" and argmax = True and b = 0]
  from T have "prepend_init history = Inr (replicate 2 0 # cells history)"
    by (rule conjunct1)
  then have p: "prepend_init history = Inr [[0, 0], [3, 4]]"
    by (simp add: c numeral_2_eq_2)
  from T obtain st where
    st: "decode_init (unit_transducer\<lparr>blank := 5\<rparr>) (0::nat) two_samples True = Inr st"
      "(s_yd st, s_hd st, s_cd st)
        = step_features (lm (unit_transducer\<lparr>blank := 5\<rparr>)) [replicate 2 0] None"
    by blast
  from T have E: "decode_init ((unit_transducer\<lparr>blank := 5\<rparr>)\<lparr>blank := 0\<rparr>) (0::nat) two_samples True
      = decode_init (unit_transducer\<lparr>blank := 5\<rparr>) 0 two_samples True"
    by blast
  have U: "(unit_transducer\<lparr>blank := 5\<rparr>)\<lparr>blank := 0\<rparr> = unit_transducer"
    by (simp add: unit_transducer_def)
  have i: "decode_init (unit_transducer\<lparr>blank := 5\<rparr>) 0 two_samples True
      = Inr two_samples_start"
    by (simp only: E [unfolded U, symmetric] two_samples_init)
  with st have s: "(s_yd two_samples_start, s_hd two_samples_start, s_cd two_samples_start)
       = step_features (lm (unit_transducer\<lparr>blank := 5\<rparr>)) [[0, 0]] None"
    by (simp add: numeral_2_eq_2)
  from d b p i s show ?thesis by simp
qed

section \<open>The decoding loop consumes every timestep\<close>

lemma sub_prior_length [simp]: "length (sub_prior z p) = length z"
  by (simp add: sub_prior_def)

lemma sub_prior_row_length [simp]:
  "j < length z \<Longrightarrow> length (sub_prior z p ! j) = length (z ! j)"
  by (simp add: sub_prior_def)

lemma select_time_length [simp]: "length (select_time xs i) = length (cells xs)"
  by (simp add: select_time_def)

lemma step_scores_length:
  assumes "length (cells xs) = n" and "length (s_yd st ! 0) = n"
  shows "length (step_scores tr xs prior i st) = n"
  using assms by (simp add: step_scores_def joint_rows_def Let_def split: option.splits)

lemma step_scores_row_length:
  assumes "length (cells xs) = n" and "length (s_yd st ! 0) = n" and "j < n"
      and "\<And>v. length (log_softmax tr (fc tr v)) = V"
  shows "length (step_scores tr xs prior i st ! j) = V"
  using assms
  by (simp add: step_scores_def joint_rows_def joint_def Let_def split: option.splits)

lemma emit_length:
  assumes "\<And>g p. length (concat (fst (multinomial smp g p))) = length p"
  shows "length (fst (emit tr smp sampled epsilon z g)) = length z"
proof (cases sampled)
  case False
  then show ?thesis by (simp add: emit_def)
next
  case True
  have "length (concat (fst (multinomial smp g (map (map (texp tr)) z)))) = length z"
    by (simp add: assms)
  with True show ?thesis
    by (auto simp: emit_def Let_def split: prod.splits)
qed

lemma emitted_length:
  assumes "\<And>g p. length (concat (fst (multinomial smp g p))) = length p"
      and "length (cells xs) = n" and "length (s_yd st ! 0) = n"
  shows "length (emitted tr smp xs prior sampled epsilon i st) = n"
  by (simp add: emitted_def emit_length [OF assms(1)] step_scores_length [OF assms(2,3)])

lemma decode_step_record:
  "s_out (decode_step tr smp xs prior sampled epsilon argmax i st) =
     record_step argmax i (emitted tr smp xs prior sampled epsilon i st)
       (step_scores tr xs prior i st) (s_out st)"
  by (simp add: decode_step_def emitted_def Let_def split: prod.splits)

lemma decode_step_yd_shape:
  assumes "s_yd st \<noteq> []"
  shows "s_yd (decode_step tr smp xs prior sampled epsilon argmax i st) \<noteq> []"
    and "length (s_yd (decode_step tr smp xs prior sampled epsilon argmax i st) ! 0)
         = length (s_yd st ! 0)"
  using assms by (simp_all add: decode_step_fields where3_def)

lemma decode_loop_yd_shape:
  assumes "s_yd st \<noteq> []"
  shows "s_yd (decode_loop tr smp xs prior sampled epsilon argmax k st) \<noteq> []
       \<and> length (s_yd (decode_loop tr smp xs prior sampled epsilon argmax k st) ! 0)
           = length (s_yd st ! 0)"
  by (induction k) (simp_all add: assms decode_loop_Suc decode_step_yd_shape)

text \<open>Writing one column: \<open>s[:, i] = vals\<close>.\<close>

lemma assign_col_length [simp]:
  "length vals = length cs \<Longrightarrow> length (map (\<lambda>(row, v). row[i := v]) (zip cs vals)) = length cs"
  by simp

lemma assign_col_nth:
  assumes "length vals = length cs" and "j < length cs"
  shows "map (\<lambda>(row, v). row[i := v]) (zip cs vals) ! j = (cs ! j)[i := vals ! j]"
  using assms by simp

lemma symbols_loop:
  fixes tr :: "('a::linordered_idom, 'p) transducer" and st0 :: "('a, 'g) decode_state"
  assumes smp: "\<And>g p. length (concat (fst (multinomial smp g p))) = length p"
      and xs: "length (cells xs) = n"
      and yd: "s_yd st0 \<noteq> []" "length (s_yd st0 ! 0) = n"
      and m0: "s_out st0 = Symbols m0" "dims m0 = ds" "length (cells m0) = n"
              "\<forall>j<n. length (cells m0 ! j) = T"
      and k: "k \<le> T"
  shows "\<exists>m. s_out (decode_loop tr smp xs prior sampled epsilon True k st0) = Symbols m
           \<and> dims m = ds \<and> length (cells m) = n
           \<and> (\<forall>j<n. length (cells m ! j) = T
                \<and> (\<forall>i<k. cells m ! j ! i =
                      emitted tr smp xs prior sampled epsilon i
                        (decode_loop tr smp xs prior sampled epsilon True i st0) ! j))"
  using k
proof (induction k)
  case 0
  with m0 show ?case by simp
next
  case (Suc k)
  let ?st = "decode_loop tr smp xs prior sampled epsilon True k st0"
  let ?c = "emitted tr smp xs prior sampled epsilon k ?st"
  from Suc obtain m where
    m: "s_out ?st = Symbols m" "dims m = ds" "length (cells m) = n"
      "\<forall>j<n. length (cells m ! j) = T
         \<and> (\<forall>i<k. cells m ! j ! i =
               emitted tr smp xs prior sampled epsilon i
                 (decode_loop tr smp xs prior sampled epsilon True i st0) ! j)"
    by auto
  have "length (s_yd ?st ! 0) = n"
    using decode_loop_yd_shape [OF yd(1), of tr smp xs prior sampled epsilon True k] yd(2)
    by simp
  then have c: "length ?c = n"
    by (rule emitted_length [OF smp xs])
  define m' where "m' = m\<lparr>cells := map (\<lambda>(row, v). row[k := v]) (zip (cells m) ?c)\<rparr>"
  have out: "s_out (decode_loop tr smp xs prior sampled epsilon True (Suc k) st0) = Symbols m'"
    by (simp add: decode_loop_Suc decode_step_record record_step_def m(1) m'_def)
  have row: "cells m' ! j = (cells m ! j)[k := ?c ! j]" if "j < n" for j
    using that c m(3) by (simp add: m'_def)
  have "cells m' ! j ! i =
      emitted tr smp xs prior sampled epsilon i
        (decode_loop tr smp xs prior sampled epsilon True i st0) ! j"
    if "j < n" "i < Suc k" for j i
  proof (cases "i = k")
    case True
    with that m(4) Suc.prems show ?thesis by (simp add: row)
  next
    case False
    with that m(4) show ?thesis by (simp add: row)
  qed
  moreover have "length (cells m' ! j) = T" if "j < n" for j
    using that m(4) by (simp add: row)
  moreover have "length (cells m') = n" "dims m' = ds"
    using c m(2,3) by (simp_all add: m'_def)
  ultimately show ?case
    using out by blast
qed

lemma distributions_loop:
  fixes tr :: "('a::linordered_idom, 'p) transducer" and st0 :: "('a, 'g) decode_state"
  assumes fc: "\<And>v. length (log_softmax tr (fc tr v)) = V"
      and xs: "length (cells xs) = n"
      and yd: "s_yd st0 \<noteq> []" "length (s_yd st0 ! 0) = n"
      and m0: "s_out st0 = Distributions m0" "dims m0 = ds" "length (cells m0) = n"
              "\<forall>j<n. length (cells m0 ! j) = T \<and> (\<forall>i<T. length (cells m0 ! j ! i) = V)"
      and k: "k \<le> T"
  shows "\<exists>m. s_out (decode_loop tr smp xs prior sampled epsilon False k st0) = Distributions m
           \<and> dims m = ds \<and> length (cells m) = n
           \<and> (\<forall>j<n. length (cells m ! j) = T
                \<and> (\<forall>i<T. length (cells m ! j ! i) = V)
                \<and> (\<forall>i<k. cells m ! j ! i =
                      step_scores tr xs prior i
                        (decode_loop tr smp xs prior sampled epsilon False i st0) ! j))"
  using k
proof (induction k)
  case 0
  with m0 show ?case by simp
next
  case (Suc k)
  let ?st = "decode_loop tr smp xs prior sampled epsilon False k st0"
  let ?z = "step_scores tr xs prior k ?st"
  from Suc obtain m where
    m: "s_out ?st = Distributions m" "dims m = ds" "length (cells m) = n"
      "\<forall>j<n. length (cells m ! j) = T
         \<and> (\<forall>i<T. length (cells m ! j ! i) = V)
         \<and> (\<forall>i<k. cells m ! j ! i =
               step_scores tr xs prior i
                 (decode_loop tr smp xs prior sampled epsilon False i st0) ! j)"
    by auto
  have y: "length (s_yd ?st ! 0) = n"
    using decode_loop_yd_shape [OF yd(1), of tr smp xs prior sampled epsilon False k] yd(2)
    by simp
  then have z: "length ?z = n"
    by (rule step_scores_length [OF xs])
  have zr: "length (?z ! j) = V" if "j < n" for j
    using step_scores_row_length [OF xs y that fc] .
  define m' where "m' = m\<lparr>cells := map (\<lambda>(row, v). row[k := v]) (zip (cells m) ?z)\<rparr>"
  have out: "s_out (decode_loop tr smp xs prior sampled epsilon False (Suc k) st0)
      = Distributions m'"
    by (simp add: decode_loop_Suc decode_step_record record_step_def m(1) m'_def)
  have row: "cells m' ! j = (cells m ! j)[k := ?z ! j]" if "j < n" for j
    using that z m(3) by (simp add: m'_def)
  have "cells m' ! j ! i =
      step_scores tr xs prior i (decode_loop tr smp xs prior sampled epsilon False i st0) ! j"
    if "j < n" "i < Suc k" for j i
  proof (cases "i = k")
    case True
    with that m(4) Suc.prems show ?thesis by (simp add: row)
  next
    case False
    with that m(4) show ?thesis by (simp add: row)
  qed
  moreover have "length (cells m' ! j) = T" if "j < n" for j
    using that m(4) by (simp add: row)
  moreover have "length (cells m' ! j ! i) = V" if "j < n" "i < T" for j i
  proof (cases "i = k")
    case True
    with that m(4) zr [OF that(1)] show ?thesis by (simp add: row)
  next
    case False
    with that m(4) show ?thesis by (simp add: row)
  qed
  moreover have "length (cells m') = n" "dims m' = ds"
    using z m(2,3) by (simp_all add: m'_def)
  ultimately show ?case
    using out by blast
qed

lemma decode_step_yd_widths:
  assumes "s_yd st \<noteq> []" and "list_all (\<lambda>row. length row = h) (s_yd st ! 0)"
  shows "list_all (\<lambda>row. length row = h)
           (s_yd (decode_step tr smp xs prior sampled epsilon argmax i st) ! 0)"
  using assms by (simp add: decode_step_fields list_all_length)

lemma decode_loop_yd_widths:
  assumes "s_yd st \<noteq> []" and "list_all (\<lambda>row. length row = h) (s_yd st ! 0)"
  shows "list_all (\<lambda>row. length row = h)
           (s_yd (decode_loop tr smp xs prior sampled epsilon argmax k st) ! 0)"
proof (induction k)
  case 0
  from assms(2) show ?case by simp
next
  case (Suc k)
  from decode_loop_yd_shape [OF assms(1), of tr smp xs prior sampled epsilon argmax k]
  have "s_yd (decode_loop tr smp xs prior sampled epsilon argmax k st) \<noteq> []"
    by simp
  from decode_step_yd_widths [OF this Suc] show ?case
    by (simp add: decode_loop_Suc)
qed

lemma decode_init_fields:
  assumes "dims xs = [n, T, h]"
  shows "\<exists>st0. decode_init tr g xs argmax = Inr st0
      \<and> s_yd st0 = fst (step_features (lm tr) [replicate n 0] None)
      \<and> s_out st0 =
          (if argmax then Symbols \<lparr>dims = [n, T], cells = replicate n (replicate T 0)\<rparr>
           else Distributions \<lparr>dims = [n, T, vocab_size tr],
                  cells = replicate n (replicate T (replicate (vocab_size tr) 0))\<rparr>)"
  by (simp add: decode_init_def assms Let_def split: prod.splits)


lemma const_sampler_shape:
  "length (concat (fst (multinomial (const_sampler k) g p))) = length p"
  by (induction p) (simp_all add: const_sampler_def)

lemma unit_head_length: "length (log_softmax unit_transducer (fc unit_transducer v)) = 2"
  by (simp add: unit_transducer_def)


end
